theory Spec2Isabelle
  imports Main "HOL-Library.AList" "HOL-Library.List_Lexorder" "HOL-Library.Char_ord"
begin

section \<open>Paths (pathlib)\<close>

text \<open>
  A \<^verbatim>\<open>pathlib.Path\<close> is kept as Python keeps it: a flag for the leading slash and the list
  of its components. \<^verbatim>\<open>Path(s)\<close> drops empty and \<^verbatim>\<open>.\<close> components and keeps \<^verbatim>\<open>..\<close>;
  \<^verbatim>\<open>a / b\<close> is \<^verbatim>\<open>b\<close> when \<^verbatim>\<open>b\<close> is absolute.
\<close>

datatype pure_path = PurePath (is_abs: bool) (parts: "string list")

fun split_on :: "char \<Rightarrow> string \<Rightarrow> string list" where
  "split_on c [] = [[]]"
| "split_on c (x # xs) =
     (if x = c then [] # split_on c xs
      else (case split_on c xs of [] \<Rightarrow> [[x]] | w # ws \<Rightarrow> (x # w) # ws))"

definition Path :: "string \<Rightarrow> pure_path" where
  "Path s = PurePath (s \<noteq> [] \<and> hd s = CHR ''/'')
                     (filter (\<lambda>p. p \<noteq> [] \<and> p \<noteq> ''.'') (split_on (CHR ''/'') s))"

definition joinpath :: "pure_path \<Rightarrow> pure_path \<Rightarrow> pure_path" where
  "joinpath a b = (if is_abs b then b else PurePath (is_abs a) (parts a @ parts b))"

definition child :: "pure_path \<Rightarrow> string \<Rightarrow> pure_path" where
  "child a s = joinpath a (Path s)"

definition name_of :: "pure_path \<Rightarrow> string" where
  "name_of p = (if parts p = [] then [] else last (parts p))"

text \<open>\<^verbatim>\<open>str(p)\<close>.\<close>

fun join_with :: "string \<Rightarrow> string list \<Rightarrow> string" where
  "join_with sep [] = []"
| "join_with sep [x] = x"
| "join_with sep (x # y # ys) = x @ sep @ join_with sep (y # ys)"

definition path_str :: "pure_path \<Rightarrow> string" where
  "path_str p =
     (if is_abs p then CHR ''/'' # join_with ''/'' (parts p)
      else if parts p = [] then ''.'' else join_with ''/'' (parts p))"

text \<open>What does not change during one run of the script: the working directory, the home
  directory of each user (the empty name is the current user; None when it cannot be
  determined), the directory of the script file and its name, all already resolved, and which pairs
  of locations lie on different devices, so that a hard link from one to the other fails.\<close>

record env =
  cwd :: "string list"
  home :: "string \<Rightarrow> string list option"
  script_dir :: "string list"
  script_name :: string
  xdev :: "string list \<Rightarrow> string list \<Rightarrow> bool"

definition anchor :: "env \<Rightarrow> pure_path \<Rightarrow> string list" where
  "anchor E p = (if is_abs p then parts p else cwd E @ parts p)"

section \<open>The file system\<close>

text \<open>
  The file system is an association list from locations (the names from the root down, with
  no \<^verbatim>\<open>..\<close> and no symbolic link on the way) to nodes. The root is a directory and has no
  entry. A hard link is a second entry with the same file. Permissions, devices and
  timestamps are not modelled.
\<close>

datatype node = File string | Dir | Symlink pure_path

type_synonym fs = "(string list \<times> node) list"

datatype os_error = ENOENT | ENOTDIR | ELOOP | EEXIST | EISDIR

definition node_at :: "fs \<Rightarrow> string list \<Rightarrow> node option" where
  "node_at F loc = (if loc = [] then Some Dir else map_of F loc)"

text \<open>
  Path resolution, one component at a time from the directory \<open>cur\<close>: \<^verbatim>\<open>..\<close> goes to the
  parent, a symbolic link is replaced by its target (at most \<open>hops\<close> times, then ELOOP), a
  missing or non-directory component in the middle is an error. The last component may be
  missing (the result is then where it would be created) and, when \<open>follow\<close> is off, is not
  followed if it is a link.
\<close>

fun walk :: "nat \<Rightarrow> fs \<Rightarrow> bool \<Rightarrow> string list \<Rightarrow> string list \<Rightarrow> os_error + string list" where
  "walk hops F follow cur [] = Inr cur"
| "walk hops F follow cur (c # cs) =
     (if c = ''..'' then walk hops F follow (butlast cur) cs
      else (case map_of F (cur @ [c]) of
          None \<Rightarrow> if cs = [] then Inr (cur @ [c]) else Inl ENOENT
        | Some Dir \<Rightarrow> walk hops F follow (cur @ [c]) cs
        | Some (File _) \<Rightarrow> if cs = [] then Inr (cur @ [c]) else Inl ENOTDIR
        | Some (Symlink t) \<Rightarrow>
            if cs = [] \<and> \<not> follow then Inr (cur @ [c])
            else if hops = 0 then Inl ELOOP
            else walk (hops - 1) F follow (if is_abs t then [] else cur) (parts t @ cs)))"

definition max_hops :: nat where
  "max_hops = 40"

definition locate :: "fs \<Rightarrow> bool \<Rightarrow> string list \<Rightarrow> os_error + string list" where
  "locate F follow p = walk max_hops F follow [] p"

definition stat_at :: "fs \<Rightarrow> bool \<Rightarrow> string list \<Rightarrow> os_error + node" where
  "stat_at F follow p =
     (case locate F follow p of
        Inl e \<Rightarrow> Inl e
      | Inr loc \<Rightarrow> (case node_at F loc of None \<Rightarrow> Inl ENOENT | Some n \<Rightarrow> Inr n))"

text \<open>\<^verbatim>\<open>Path.exists\<close>, \<^verbatim>\<open>is_dir\<close> and \<^verbatim>\<open>is_symlink\<close> answer False on every error of the
  lookup.\<close>

definition exists_fs :: "fs \<Rightarrow> string list \<Rightarrow> bool" where
  "exists_fs F p = (case stat_at F True p of Inl _ \<Rightarrow> False | Inr _ \<Rightarrow> True)"

definition is_dir_fs :: "fs \<Rightarrow> string list \<Rightarrow> bool" where
  "is_dir_fs F p = (stat_at F True p = Inr Dir)"

definition is_symlink_fs :: "fs \<Rightarrow> string list \<Rightarrow> bool" where
  "is_symlink_fs F p = (case stat_at F False p of Inr (Symlink _) \<Rightarrow> True | _ \<Rightarrow> False)"

text \<open>
  \<^verbatim>\<open>os.path.realpath\<close>, not strict. The path so far is \<open>live @ dead\<close>: \<open>live\<close> is a
  directory that exists, \<open>dead\<close> the names taken after a name that is missing or is not a
  directory, where every further \<^verbatim>\<open>lstat\<close> fails and the names are kept as they come.
  \<^verbatim>\<open>..\<close> drops the last name. A link is replaced by its target. The result comes with
  False when a link loop was met; a loop is recognised here by the number of links
  followed, at most \<open>hops\<close> as in \<open>walk\<close>, where \<^verbatim>\<open>realpath\<close> remembers the links it is
  resolving: the two differ only on a path with more links than that and no loop.
\<close>

fun realpath :: "nat \<Rightarrow> fs \<Rightarrow> string list \<Rightarrow> string list \<Rightarrow> string list \<Rightarrow> string list \<times> bool" where
  "realpath hops F live dead [] = (live @ dead, True)"
| "realpath hops F live dead (c # cs) =
     (if c = ''..'' then
        (if dead = [] then realpath hops F (butlast live) [] cs
         else realpath hops F live (butlast dead) cs)
      else if dead \<noteq> [] then realpath hops F live (dead @ [c]) cs
      else (case map_of F (live @ [c]) of
          Some (Symlink t) \<Rightarrow>
            if hops = 0 then (live @ c # cs, False)
            else realpath (hops - 1) F (if is_abs t then [] else live) [] (parts t @ cs)
        | Some Dir \<Rightarrow> realpath hops F (live @ [c]) [] cs
        | _ \<Rightarrow> realpath hops F live [c] cs))"

definition children :: "fs \<Rightarrow> string list \<Rightarrow> string list" where
  "children F loc = remdups (map last (filter (\<lambda>k. k \<noteq> [] \<and> butlast k = loc) (map fst F)))"

section \<open>Running the script: state, exceptions, exit\<close>

datatype exn =
    FileNotFoundError | FileExistsError | NotADirectoryError | IsADirectoryError
  | LoopError | PermissionError | CrossDeviceError
  | KeyError string | IndexError | TOMLDecodeError | RuntimeError | OtherError string

text \<open>The exceptions that \<^verbatim>\<open>except OSError\<close> catches.\<close>

fun is_os_error :: "exn \<Rightarrow> bool" where
  "is_os_error FileNotFoundError = True"
| "is_os_error FileExistsError = True"
| "is_os_error NotADirectoryError = True"
| "is_os_error IsADirectoryError = True"
| "is_os_error LoopError = True"
| "is_os_error PermissionError = True"
| "is_os_error CrossDeviceError = True"
| "is_os_error _ = False"

fun exn_of :: "os_error \<Rightarrow> exn" where
  "exn_of ENOENT = FileNotFoundError"
| "exn_of ENOTDIR = NotADirectoryError"
| "exn_of ELOOP = LoopError"
| "exn_of EEXIST = FileExistsError"
| "exn_of EISDIR = IsADirectoryError"

text \<open>The state of a run: the files, what has been printed, and the rest of the world
  (the network, the remotes), which only the external programs see. Every \<^verbatim>\<open>print\<close>
  of the script is a constructor of the message type of its command, with the values its
  f-string interpolates; colours are left out.\<close>

record ('m, 'e) state =
  files :: fs
  out :: "'m list"
  outside :: 'e

text \<open>A statement returns, leaves through \<^verbatim>\<open>sys.exit(n)\<close>, or raises an exception nobody
  catches.\<close>

datatype 'a result = Ok 'a | Exit int | Raise exn

definition ret :: "'a \<Rightarrow> 's \<Rightarrow> 'a result \<times> 's" where
  "ret a s = (Ok a, s)"

definition bnd :: "('s \<Rightarrow> 'a result \<times> 's) \<Rightarrow> ('a \<Rightarrow> 's \<Rightarrow> 'b result \<times> 's) \<Rightarrow> 's \<Rightarrow> 'b result \<times> 's" where
  "bnd m f s = (case m s of
       (Ok a, s') \<Rightarrow> f a s'
     | (Exit n, s') \<Rightarrow> (Exit n, s')
     | (Raise e, s') \<Rightarrow> (Raise e, s'))"

definition thn :: "('s \<Rightarrow> unit result \<times> 's) \<Rightarrow> ('s \<Rightarrow> 'b result \<times> 's) \<Rightarrow> 's \<Rightarrow> 'b result \<times> 's" where
  "thn m k = bnd m (\<lambda>_. k)"

definition do_if :: "bool \<Rightarrow> ('s \<Rightarrow> unit result \<times> 's) \<Rightarrow> 's \<Rightarrow> unit result \<times> 's" where
  "do_if b m = (if b then m else ret ())"

definition sys_exit :: "int \<Rightarrow> 's \<Rightarrow> 'a result \<times> 's" where
  "sys_exit n s = (Exit n, s)"

definition raise :: "exn \<Rightarrow> 's \<Rightarrow> 'a result \<times> 's" where
  "raise e s = (Raise e, s)"

definition print :: "'m \<Rightarrow> ('m, 'e) state \<Rightarrow> unit result \<times> ('m, 'e) state" where
  "print m s = (Ok (), s\<lparr>out := out s @ [m]\<rparr>)"

fun for_each :: "('a \<Rightarrow> 's \<Rightarrow> unit result \<times> 's) \<Rightarrow> 'a list \<Rightarrow> 's \<Rightarrow> unit result \<times> 's" where
  "for_each body [] = ret ()"
| "for_each body (x # xs) = thn (body x) (for_each body xs)"

subsection \<open>pathlib on the state\<close>

definition exists :: "env \<Rightarrow> pure_path \<Rightarrow> ('m, 'e) state \<Rightarrow> bool" where
  "exists E p s = exists_fs (files s) (anchor E p)"

definition is_dir :: "env \<Rightarrow> pure_path \<Rightarrow> ('m, 'e) state \<Rightarrow> bool" where
  "is_dir E p s = is_dir_fs (files s) (anchor E p)"

definition is_symlink :: "env \<Rightarrow> pure_path \<Rightarrow> ('m, 'e) state \<Rightarrow> bool" where
  "is_symlink E p s = is_symlink_fs (files s) (anchor E p)"

text \<open>\<^verbatim>\<open>Path.resolve()\<close> of Python 3.11 and 3.12: the real path, made absolute, and
  RuntimeError when \<^verbatim>\<open>stat\<close> of it reports a link loop, which is when \<^verbatim>\<open>realpath\<close> met
  one.\<close>

definition resolve :: "env \<Rightarrow> pure_path \<Rightarrow> ('m, 'e) state \<Rightarrow> exn + pure_path" where
  "resolve E p s =
     (case realpath max_hops (files s) [] [] (anchor E p) of
        (loc, True) \<Rightarrow> Inr (PurePath True loc)
      | (loc, False) \<Rightarrow> Inl RuntimeError)"

text \<open>\<^verbatim>\<open>sorted(p.iterdir())\<close> of the script always sorts entries of one directory, so the
  order is that of the names.\<close>

definition iterdir :: "env \<Rightarrow> pure_path \<Rightarrow> ('m, 'e) state \<Rightarrow> pure_path list result \<times> ('m, 'e) state" where
  "iterdir E p s =
     (case locate (files s) True (anchor E p) of
        Inl e \<Rightarrow> (Raise (exn_of e), s)
      | Inr loc \<Rightarrow>
         (case node_at (files s) loc of
            None \<Rightarrow> (Raise FileNotFoundError, s)
          | Some Dir \<Rightarrow> (Ok (map (\<lambda>n. joinpath p (PurePath False [n])) (children (files s) loc)), s)
          | Some _ \<Rightarrow> (Raise NotADirectoryError, s)))"

definition sorted_paths :: "pure_path list \<Rightarrow> pure_path list" where
  "sorted_paths ps = sort_key parts ps"

text \<open>\<^verbatim>\<open>mkdir\<close> and \<^verbatim>\<open>symlink_to\<close> do not follow a link in the last component: anything
  there, a dangling link too, is FileExistsError. \<^verbatim>\<open>Path.mkdir\<close> lets FileNotFoundError
  through and, with \<^verbatim>\<open>exist_ok=True\<close>, forgives any other error when the path is a
  directory.\<close>

definition create_at :: "env \<Rightarrow> pure_path \<Rightarrow> node \<Rightarrow> ('m, 'e) state \<Rightarrow> unit result \<times> ('m, 'e) state" where
  "create_at E p n s =
     (case locate (files s) False (anchor E p) of
        Inl e \<Rightarrow> (Raise (exn_of e), s)
      | Inr loc \<Rightarrow>
         (case node_at (files s) loc of
            Some _ \<Rightarrow> (Raise FileExistsError, s)
          | None \<Rightarrow> (Ok (), s\<lparr>files := AList.update loc n (files s)\<rparr>)))"

definition mkdir :: "env \<Rightarrow> pure_path \<Rightarrow> bool \<Rightarrow> ('m, 'e) state \<Rightarrow> unit result \<times> ('m, 'e) state" where
  "mkdir E p exist_ok s =
     (case create_at E p Dir s of
        (Raise e, s') \<Rightarrow>
           if e \<noteq> FileNotFoundError \<and> exist_ok \<and> is_dir E p s' then (Ok (), s') else (Raise e, s')
      | r \<Rightarrow> r)"

text \<open>\<^verbatim>\<open>mkdir(parents=True)\<close>, on the components of the path in reverse: when the parent is
  missing it is made first, with \<^verbatim>\<open>exist_ok=True\<close>.\<close>

fun mkdir_parents :: "env \<Rightarrow> bool \<Rightarrow> string list \<Rightarrow> bool \<Rightarrow> ('m, 'e) state \<Rightarrow> unit result \<times> ('m, 'e) state" where
  "mkdir_parents E a [] exist_ok s = mkdir E (PurePath a []) exist_ok s"
| "mkdir_parents E a (c # rparents) exist_ok s =
     (case create_at E (PurePath a (rev (c # rparents))) Dir s of
        (Raise e, s') \<Rightarrow>
          if e = FileNotFoundError then
            (case mkdir_parents E a rparents True s' of
               (Ok u, s'') \<Rightarrow> mkdir E (PurePath a (rev (c # rparents))) exist_ok s''
             | r \<Rightarrow> r)
          else if exist_ok \<and> is_dir E (PurePath a (rev (c # rparents))) s' then (Ok (), s')
          else (Raise e, s')
      | r \<Rightarrow> r)"

definition symlink_to :: "env \<Rightarrow> pure_path \<Rightarrow> pure_path \<Rightarrow> ('m, 'e) state \<Rightarrow> unit result \<times> ('m, 'e) state" where
  "symlink_to E p target s = create_at E p (Symlink target) s"

text \<open>Opening for writing follows links: a dangling link is written through.\<close>

definition write_text :: "env \<Rightarrow> pure_path \<Rightarrow> string \<Rightarrow> ('m, 'e) state \<Rightarrow> unit result \<times> ('m, 'e) state" where
  "write_text E p content s =
     (case locate (files s) True (anchor E p) of
        Inl e \<Rightarrow> (Raise (exn_of e), s)
      | Inr loc \<Rightarrow>
         (case node_at (files s) loc of
            Some Dir \<Rightarrow> (Raise IsADirectoryError, s)
          | _ \<Rightarrow> (Ok (), s\<lparr>files := AList.update loc (File content) (files s)\<rparr>)))"

text \<open>\<^verbatim>\<open>unlink\<close> removes the name itself, a link too, and refuses a directory.
  \<^verbatim>\<open>hardlink_to\<close> gives the file of the target a second name, which must be free.\<close>

definition unlink :: "env \<Rightarrow> pure_path \<Rightarrow> ('m, 'e) state \<Rightarrow> unit result \<times> ('m, 'e) state" where
  "unlink E p s =
     (case locate (files s) False (anchor E p) of
        Inl e \<Rightarrow> (Raise (exn_of e), s)
      | Inr loc \<Rightarrow>
         (case node_at (files s) loc of
            None \<Rightarrow> (Raise FileNotFoundError, s)
          | Some Dir \<Rightarrow> (Raise IsADirectoryError, s)
          | Some _ \<Rightarrow> (Ok (), s\<lparr>files := AList.delete loc (files s)\<rparr>)))"

definition hardlink_to :: "env \<Rightarrow> pure_path \<Rightarrow> pure_path \<Rightarrow> ('m, 'e) state \<Rightarrow> unit result \<times> ('m, 'e) state" where
  "hardlink_to E p target s =
     (case locate (files s) True (anchor E target) of
        Inl e \<Rightarrow> (Raise (exn_of e), s)
      | Inr tloc \<Rightarrow>
         (case node_at (files s) tloc of
            None \<Rightarrow> (Raise FileNotFoundError, s)
          | Some (File c) \<Rightarrow>
             (case locate (files s) False (anchor E p) of
                Inl e \<Rightarrow> (Raise (exn_of e), s)
              | Inr loc \<Rightarrow>
                 if node_at (files s) loc \<noteq> None then (Raise FileExistsError, s)
                 else if xdev E tloc loc then (Raise CrossDeviceError, s)
                 else (Ok (), s\<lparr>files := AList.update loc (File c) (files s)\<rparr>))
          | Some _ \<Rightarrow> (Raise PermissionError, s)))"

definition read_text :: "env \<Rightarrow> pure_path \<Rightarrow> ('m, 'e) state \<Rightarrow> string result \<times> ('m, 'e) state" where
  "read_text E p s =
     (case stat_at (files s) True (anchor E p) of
        Inl e \<Rightarrow> (Raise (exn_of e), s)
      | Inr (File c) \<Rightarrow> (Ok c, s)
      | Inr _ \<Rightarrow> (Raise IsADirectoryError, s))"

subsection \<open>External programs\<close>

text \<open>
  \<^verbatim>\<open>subprocess.run\<close> is not part of the script: the program run is a parameter, a function
  of the command line, the directory it runs in, the files and the outside world. It
  completes with an exit code, stdout and stderr, or \<^verbatim>\<open>subprocess.run\<close> raises before
  that (the program is missing, the directory is, the output does not decode), with an
  exception \<open>e\<close> and its text \<^verbatim>\<open>str(e)\<close>.
\<close>

datatype proc_result = Completed int string string | Failed exn string

type_synonym 'e runner =
  "string list \<Rightarrow> string list option \<Rightarrow> fs \<Rightarrow> 'e \<Rightarrow> proc_result \<times> fs \<times> 'e"

definition subprocess_run ::
  "'e runner \<Rightarrow> env \<Rightarrow> string list \<Rightarrow> pure_path option \<Rightarrow> ('m, 'e) state \<Rightarrow> proc_result \<times> ('m, 'e) state" where
  "subprocess_run run E argv dir s =
     (case run argv (map_option (anchor E) dir) (files s) (outside s) of
        (r, F, w) \<Rightarrow> (r, s\<lparr>files := F, outside := w\<rparr>))"

subsection \<open>Strings\<close>

text \<open>A string is a list of code points below 256. The white space of \<^verbatim>\<open>str.strip()\<close>
  among them: the ASCII white space, the four separators \<^verbatim>\<open>\x1c\<close> to \<^verbatim>\<open>\x1f\<close>, the next
  line character \<^verbatim>\<open>\x85\<close> and the no-break space \<^verbatim>\<open>\xa0\<close>.\<close>

definition is_space :: "char \<Rightarrow> bool" where
  "is_space c = (c \<in> set [CHR '' '', CHR 0x09, CHR 0x0A, CHR 0x0B, CHR 0x0C, CHR 0x0D,
                            CHR 0x1C, CHR 0x1D, CHR 0x1E, CHR 0x1F, CHR 0x85, CHR 0xA0])"

definition strip :: "string \<Rightarrow> string" where
  "strip s = rev (dropWhile is_space (rev (dropWhile is_space s)))"

definition startswith :: "string \<Rightarrow> string \<Rightarrow> bool" where
  "startswith s pre = (take (length pre) s = pre)"

section \<open>The gitcheck command\<close>

datatype check_msg =
    WorkspaceHeader string | RepoHeader pure_path
  | UncommittedHeader | UncommittedLine string
  | OutgoingHeader | OutgoingLine string
  | IncomingHeader | IncomingLine string
  | BlankLine
  | CheckingBanner | FetchingBanner
  | WorkspaceNotFound string | NotAWorkspace string | NoWorkspacesFound
  | Summary nat nat

record status =
  is_git_repo :: bool
  uncommitted :: string
  outgoing :: string
  incoming :: string

text \<open>\<^verbatim>\<open>run_git\<close>: the exit code is not looked at; only an exception of
  \<^verbatim>\<open>subprocess.run\<close> gives success False.\<close>

definition run_git ::
  "'e runner \<Rightarrow> env \<Rightarrow> pure_path \<Rightarrow> string list \<Rightarrow> ('m, 'e) state \<Rightarrow> (bool \<times> string) result \<times> ('m, 'e) state" where
  "run_git run E repo_path args s =
     (case subprocess_run run E (''git'' # args) (Some repo_path) s of
        (Completed rc stdout stderr, s') \<Rightarrow> (Ok (True, strip stdout), s')
      | (Failed e text, s') \<Rightarrow> (Ok (False, text), s'))"

definition check_repo ::
  "'e runner \<Rightarrow> env \<Rightarrow> pure_path \<Rightarrow> bool \<Rightarrow> ('m, 'e) state \<Rightarrow> status result \<times> ('m, 'e) state" where
  "check_repo run E repo_path fetch s =
     (let result = \<lparr>is_git_repo = False, uncommitted = [], outgoing = [], incoming = []\<rparr> in
      (if \<not> exists E (child repo_path ''.git'') s then ret result s
        else
         (let result = result\<lparr>is_git_repo := True\<rparr> in
          bnd (run_git run E repo_path [''status'', ''--porcelain'']) (\<lambda>(success, output).
          let result = (if success then result\<lparr>uncommitted := output\<rparr> else result) in
          thn (if fetch then bnd (run_git run E repo_path [''fetch'', ''--quiet'']) (\<lambda>_. ret ())
               else ret ())
          (bnd (run_git run E repo_path [''log'', CHR ''@'' # ''{u}..'', ''--oneline'']) (\<lambda>(success, output).
          let result = (if success then result\<lparr>outgoing := output\<rparr> else result) in
          bnd (run_git run E repo_path [''log'', ''..'' @ CHR ''@'' # ''{u}'', ''--oneline'']) (\<lambda>(success, output).
          let result = (if success then result\<lparr>incoming := output\<rparr> else result) in
          ret result))))) s))"

text \<open>The body of the loop of \<^verbatim>\<open>check_workspace\<close>, on the counters \<open>(clean, dirty)\<close>.\<close>

definition check_one ::
  "'e runner \<Rightarrow> env \<Rightarrow> bool \<Rightarrow> pure_path \<Rightarrow> nat \<times> nat \<Rightarrow> (check_msg, 'e) state \<Rightarrow> (nat \<times> nat) result \<times> (check_msg, 'e) state" where
  "check_one run E fetch repo = (\<lambda>(clean, dirty) s.
     if \<not> is_dir E repo s then ret (clean, dirty) s
     else
      bnd (check_repo run E repo fetch) (\<lambda>st.
      if \<not> is_git_repo st then ret (clean, dirty)
      else
       (let has_issues = (uncommitted st \<noteq> [] \<or> outgoing st \<noteq> [] \<or> incoming st \<noteq> []) in
        bnd (if has_issues then thn (print (RepoHeader repo)) (ret (clean, dirty + 1))
             else ret (clean + 1, dirty)) (\<lambda>counts.
        thn (do_if (uncommitted st \<noteq> [])
               (thn (print UncommittedHeader)
                    (for_each (\<lambda>line. print (UncommittedLine line)) (split_on (CHR 0x0A) (uncommitted st)))))
       (thn (do_if (outgoing st \<noteq> [])
               (thn (print OutgoingHeader)
                    (for_each (\<lambda>line. print (OutgoingLine line)) (split_on (CHR 0x0A) (outgoing st)))))
       (thn (do_if (incoming st \<noteq> [])
               (thn (print IncomingHeader)
                    (for_each (\<lambda>line. print (IncomingLine line)) (split_on (CHR 0x0A) (incoming st)))))
       (ret counts)))))) s)"

fun check_loop ::
  "'e runner \<Rightarrow> env \<Rightarrow> bool \<Rightarrow> pure_path list \<Rightarrow> nat \<times> nat \<Rightarrow> (check_msg, 'e) state \<Rightarrow> (nat \<times> nat) result \<times> (check_msg, 'e) state" where
  "check_loop run E fetch [] counts = ret counts"
| "check_loop run E fetch (repo # repos) counts =
     bnd (check_one run E fetch repo counts) (check_loop run E fetch repos)"

definition check_workspace ::
  "'e runner \<Rightarrow> env \<Rightarrow> pure_path \<Rightarrow> bool \<Rightarrow> (check_msg, 'e) state \<Rightarrow> (nat \<times> nat) result \<times> (check_msg, 'e) state" where
  "check_workspace run E workspace_path fetch s =
     (let repos_path = child workspace_path ''repos'' in
      (if \<not> exists E repos_path s then ret (0, 0) s
        else
         (thn (print (WorkspaceHeader (name_of workspace_path)))
         (bnd (iterdir E repos_path) (\<lambda>entries.
          bnd (check_loop run E fetch (sorted_paths entries) (0, 0)) (\<lambda>counts.
          thn (print BlankLine)
         (ret counts))))) s))"

definition find_workspaces :: "env \<Rightarrow> pure_path \<Rightarrow> (check_msg, 'e) state \<Rightarrow> pure_path list result \<times> (check_msg, 'e) state" where
  "find_workspaces E base_path =
     bnd (iterdir E base_path) (\<lambda>entries s.
       ret (sorted_paths
              (filter (\<lambda>item. is_dir E item s \<and> \<not> startswith (name_of item) ''.''
                              \<and> is_dir E (child item ''repos'') s) entries)) s)"

record check_args =
  ca_workspace :: "string option"
  ca_fetch :: bool

fun check_all ::
  "'e runner \<Rightarrow> env \<Rightarrow> bool \<Rightarrow> pure_path list \<Rightarrow> nat \<times> nat \<Rightarrow> (check_msg, 'e) state \<Rightarrow> (nat \<times> nat) result \<times> (check_msg, 'e) state" where
  "check_all run E fetch [] totals = ret totals"
| "check_all run E fetch (ws_path # rest) totals =
     bnd (check_workspace run E ws_path fetch) (\<lambda>(clean, dirty).
       check_all run E fetch rest (fst totals + clean, snd totals + dirty))"

text \<open>The \<^verbatim>\<open>elif in_workspace\<close> and \<^verbatim>\<open>else\<close> branches of \<^verbatim>\<open>cmd_check\<close>, taken when
  \<^verbatim>\<open>args.workspace\<close> is None or the empty string.\<close>

definition check_unnamed ::
  "'e runner \<Rightarrow> env \<Rightarrow> bool \<Rightarrow> pure_path \<Rightarrow> bool \<Rightarrow> (check_msg, 'e) state \<Rightarrow> (nat \<times> nat) result \<times> (check_msg, 'e) state" where
  "check_unnamed run E fetch cwd_path in_workspace =
     (if in_workspace then check_workspace run E cwd_path fetch
      else bnd (find_workspaces E cwd_path) (\<lambda>workspaces.
             if workspaces = [] then thn (print NoWorkspacesFound) (sys_exit 0)
             else check_all run E fetch workspaces (0, 0)))"

definition check_named ::
  "'e runner \<Rightarrow> env \<Rightarrow> bool \<Rightarrow> pure_path \<Rightarrow> string \<Rightarrow> (check_msg, 'e) state \<Rightarrow> (nat \<times> nat) result \<times> (check_msg, 'e) state" where
  "check_named run E fetch cwd_path w s =
     (let ws_path = child cwd_path w in
      if \<not> exists E ws_path s then thn (print (WorkspaceNotFound w)) (sys_exit 1) s
      else if \<not> is_dir E (child ws_path ''repos'') s then thn (print (NotAWorkspace w)) (sys_exit 1) s
      else check_workspace run E ws_path fetch s)"

definition cmd_check :: "'e runner \<Rightarrow> env \<Rightarrow> check_args \<Rightarrow> (check_msg, 'e) state \<Rightarrow> unit result \<times> (check_msg, 'e) state" where
  "cmd_check run E args s0 =
     (let cwd_path = PurePath True (cwd E);
          in_workspace = is_dir E (child cwd_path ''repos'') s0
      in
       thn (print CheckingBanner)
      (thn (do_if (ca_fetch args) (print FetchingBanner))
      (thn (print BlankLine)
      (bnd
         (case ca_workspace args of
            Some w \<Rightarrow>
              if w \<noteq> [] then check_named run E (ca_fetch args) cwd_path w
              else check_unnamed run E (ca_fetch args) cwd_path in_workspace
          | None \<Rightarrow> check_unnamed run E (ca_fetch args) cwd_path in_workspace)
         (\<lambda>(total_clean, total_dirty). print (Summary total_clean total_dirty)))))
       s0)"

section \<open>The setup command\<close>

text \<open>
  The manifest as \<^verbatim>\<open>tomllib.load\<close> returns it, with its fields of type string: a key that
  is missing is None. The parser is not part of the script and is a parameter, from the
  text of the file to the manifest, None when the text is not TOML.
\<close>

record repo_entry =
  re_path :: "string option"
  re_source :: "string option"
  re_remote :: "string option"

record config =
  cfg_name :: "string option"
  cfg_description :: "string option"
  cfg_repos :: "repo_entry list option"

type_synonym toml_parser = "string \<Rightarrow> config option"

datatype setup_msg =
    WarnNoParentClaude
  | LinkedAgentsCore | LinkedSkillsCore | CreatedSettings
  | ErrWorkspaceNotFound string | ErrNoManifest string | ErrNoReposSection
  | CreatedPlans | CreatedClaudeMd
  | SettingUpSymlinks | SettingUpRepos
  | AlreadyExists pure_path | SourceMissing pure_path string | Linked pure_path string
  | Cloned string pure_path | CloneFailed string string | NoRemoteOrSource pure_path
  | WorkspaceReady string

definition load_toml :: "toml_parser \<Rightarrow> env \<Rightarrow> pure_path \<Rightarrow> ('m, 'e) state \<Rightarrow> config result \<times> ('m, 'e) state" where
  "load_toml toml E p =
     bnd (read_text E p) (\<lambda>text.
       case toml text of None \<Rightarrow> raise TOMLDecodeError | Some config \<Rightarrow> ret config)"

definition quoted :: "string \<Rightarrow> string" where
  "quoted s = CHR 0x22 # s @ [CHR 0x22]"

definition unlines :: "string list \<Rightarrow> string" where
  "unlines ls = concat (map (\<lambda>l. l @ [CHR 0x0A]) ls)"

text \<open>\<^verbatim>\<open>json.dump(STARTER_SETTINGS, f, indent=2)\<close> and the newline written after it.\<close>

definition starter_settings :: string where
  "starter_settings = unlines
     [''{'',
      ''  '' @ quoted ''permissions'' @ '': {'',
      ''    '' @ quoted ''allow'' @ '': ['',
      ''      '' @ quoted ''Read'' @ '','',
      ''      '' @ quoted ''Edit'' @ '','',
      ''      '' @ quoted ''Write'' @ '','',
      ''      '' @ quoted ''WebSearch'',
      ''    ]'',
      ''  }'',
      ''}'']"

definition backticked :: "string \<Rightarrow> string" where
  "backticked s = CHR 0x60 # s @ [CHR 0x60]"

text \<open>\<^verbatim>\<open>CLAUDE_MD_TEMPLATE.format(name=..., description=..., repos_list=...)\<close>.\<close>

definition claude_md_template :: "string \<Rightarrow> string \<Rightarrow> string \<Rightarrow> string" where
  "claude_md_template name description repos_list = unlines
     [''# '' @ name,
      '''',
      description,
      '''',
      ''## Workspace Structure'',
      '''',
      ''This is a **workspace** - a folder grouping related repos for coordinated work.'',
      '''',
      ''- '' @ backticked ''repos/'' @ '' - Git clones and symlinks (gitignored, not tracked here)'',
      ''- '' @ backticked ''plans/'' @ '' - Design documents and implementation plans'',
      ''- '' @ backticked ''progress.md'' @ '' - AI session logs'',
      ''- '' @ backticked ''journal.md'' @ '' - Human work log'',
      '''',
      ''**File locations:** All plans and progress go in THIS folder (workspace root), never inside ''
        @ backticked ''repos/'' @ '' subdirectories.'',
      '''',
      ''## Repositories'',
      '''',
      repos_list]"

definition repos_line :: "repo_entry \<Rightarrow> string" where
  "repos_line repo =
     (let repo_path = (case re_path repo of None \<Rightarrow> [] | Some p \<Rightarrow> p);
          repo_name = (if repo_path \<noteq> [] then name_of (Path repo_path) else ''unknown'')
      in ''- '' @ backticked repo_name @ '' - [description]'')"

definition claude_md_content :: "config \<Rightarrow> string \<Rightarrow> string" where
  "claude_md_content config workspace =
     (let name = (case cfg_name config of None \<Rightarrow> workspace | Some n \<Rightarrow> n);
          description = (case cfg_description config of
                           None \<Rightarrow> ''[Description of this workspace]'' | Some d \<Rightarrow> d);
          repos_lines = map repos_line (case cfg_repos config of None \<Rightarrow> [] | Some rs \<Rightarrow> rs);
          repos_list = (if repos_lines \<noteq> [] then join_with [CHR 0x0A] repos_lines
                        else ''- (no repositories yet)'')
      in claude_md_template name description repos_list)"

definition setup_claude_symlinks ::
  "env \<Rightarrow> pure_path \<Rightarrow> (setup_msg, 'e) state \<Rightarrow> unit result \<times> (setup_msg, 'e) state" where
  "setup_claude_symlinks E workspace_path s =
     (let parent_claude = Path ''.claude'';
          workspace_claude = child workspace_path ''.claude'';
          agents_core = child (child workspace_claude ''agents'') ''core'';
          skills_core = child (child workspace_claude ''skills'') ''core'';
          settings_file = child workspace_claude ''settings.local.json''
      in
      if \<not> exists E parent_claude s then print WarnNoParentClaude s
      else
       (thn (mkdir E workspace_claude True)
       (thn (mkdir E (child workspace_claude ''agents'') True)
       (thn (mkdir E (child workspace_claude ''skills'') True)
       (thn (\<lambda>s. if \<not> exists E agents_core s \<and> exists E (child parent_claude ''agents'') s
                 then thn (symlink_to E agents_core (Path ''../../../.claude/agents''))
                          (print LinkedAgentsCore) s
                 else ret () s)
       (thn (\<lambda>s. if \<not> exists E skills_core s \<and> exists E (child parent_claude ''skills'') s
                 then thn (symlink_to E skills_core (Path ''../../../.claude/skills''))
                          (print LinkedSkillsCore) s
                 else ret () s)
            (\<lambda>s. if \<not> exists E settings_file s
                 then thn (write_text E settings_file starter_settings) (print CreatedSettings) s
                 else ret () s)))))) s)"

text \<open>\<^verbatim>\<open>Path.expanduser\<close>: a leading component \<^verbatim>\<open>~\<close> or \<^verbatim>\<open>~user\<close> of a relative path
  is replaced by the home directory, and RuntimeError is raised when there is none.\<close>

definition expanduser :: "env \<Rightarrow> pure_path \<Rightarrow> exn + pure_path" where
  "expanduser E p =
     (if \<not> is_abs p \<and> parts p \<noteq> [] \<and> take 1 (hd (parts p)) = ''~'' then
        (case home E (drop 1 (hd (parts p))) of
           None \<Rightarrow> Inl RuntimeError
         | Some h \<Rightarrow> Inr (PurePath True (h @ tl (parts p))))
      else Inr p)"

text \<open>The body of the loop over \<^verbatim>\<open>config["repos"]\<close>. A \<^verbatim>\<open>source\<close> or \<^verbatim>\<open>remote\<close> that is
  the empty string counts as absent, as the walrus tests do. \<^verbatim>\<open>git clone\<close> runs with
  \<^verbatim>\<open>check=True\<close>: a non-zero exit code is the CalledProcessError the script catches, any
  other exception of \<^verbatim>\<open>subprocess.run\<close> is not caught.\<close>

definition setup_repo ::
  "'e runner \<Rightarrow> env \<Rightarrow> pure_path \<Rightarrow> repo_entry \<Rightarrow> (setup_msg, 'e) state \<Rightarrow> unit result \<times> (setup_msg, 'e) state" where
  "setup_repo run E workspace_path repo s =
     (case re_path repo of
        None \<Rightarrow> raise (KeyError ''path'') s
      | Some p \<Rightarrow>
         (let path = Path p; target_path = joinpath workspace_path path in
          if exists E target_path s \<or> is_symlink E target_path s then print (AlreadyExists path) s
          else if re_source repo \<noteq> None \<and> re_source repo \<noteq> Some [] then
            (let source = the (re_source repo) in
             case expanduser E (Path source) of
               Inl e \<Rightarrow> raise e s
             | Inr expanded \<Rightarrow>
                (case resolve E expanded s of
                   Inl e \<Rightarrow> raise e s
                 | Inr source_path \<Rightarrow>
                    if \<not> exists E source_path s then print (SourceMissing path source) s
                    else thn (symlink_to E target_path source_path) (print (Linked path source)) s))
          else if re_remote repo \<noteq> None \<and> re_remote repo \<noteq> Some [] then
            (let remote = the (re_remote repo) in
             case subprocess_run run E [''git'', ''clone'', remote, path_str target_path] None s of
               (Completed rc stdout stderr, s') \<Rightarrow>
                 if rc = 0 then print (Cloned remote path) s'
                 else print (CloneFailed remote stderr) s'
             | (Failed e text, s') \<Rightarrow> raise e s')
          else print (NoRemoteOrSource path) s))"

record setup_args =
  sa_workspace :: string

definition cmd_setup ::
  "toml_parser \<Rightarrow> 'e runner \<Rightarrow> env \<Rightarrow> setup_args \<Rightarrow> (setup_msg, 'e) state \<Rightarrow> unit result \<times> (setup_msg, 'e) state" where
  "cmd_setup toml run E args s =
     (let workspace_path = Path (sa_workspace args);
          workspace_toml = child workspace_path ''workspace.toml'';
          repos_dir = child workspace_path ''repos'';
          plans_dir = child workspace_path ''plans'';
          claude_md = child workspace_path ''CLAUDE.md''
      in
      if \<not> exists E workspace_path s
        then thn (print (ErrWorkspaceNotFound (sa_workspace args))) (sys_exit 1) s
      else if \<not> exists E workspace_toml s
        then thn (print (ErrNoManifest (sa_workspace args))) (sys_exit 1) s
      else
       bnd (load_toml toml E workspace_toml) (\<lambda>config.
         case cfg_repos config of
           None \<Rightarrow> thn (print ErrNoReposSection) (sys_exit 1)
         | Some repos \<Rightarrow>
            (thn (mkdir E repos_dir True)
            (thn (\<lambda>s. if \<not> exists E plans_dir s
                      then thn (mkdir E plans_dir False) (print CreatedPlans) s
                      else ret () s)
            (thn (\<lambda>s. if \<not> exists E claude_md s
                      then thn (write_text E claude_md (claude_md_content config (sa_workspace args)))
                               (print CreatedClaudeMd) s
                      else ret () s)
            (thn (print SettingUpSymlinks)
            (thn (setup_claude_symlinks E workspace_path)
            (thn (print SettingUpRepos)
            (thn (for_each (setup_repo run E workspace_path) repos)
                 (print (WorkspaceReady (sa_workspace args))))))))))) s)"

section \<open>The link command\<close>

datatype link_msg =
    VaultNotFound pure_path | ErrSearchingVault
  | NoWorkspaceFolder string | AlreadyLinked string | JournalNotSymlink string
  | LinkedNote string pure_path | AibriefLinked string

text \<open>Reading a file in text mode turns \<^verbatim>\<open>\r\n\<close> and \<^verbatim>\<open>\r\<close> into \<^verbatim>\<open>\n\<close>; iterating over it
  gives the lines with their newline.\<close>

fun universal_newlines :: "string \<Rightarrow> string" where
  "universal_newlines [] = []"
| "universal_newlines [c] = [if c = CHR 0x0D then CHR 0x0A else c]"
| "universal_newlines (c # d # cs) =
     (if c = CHR 0x0D \<and> d = CHR 0x0A then CHR 0x0A # universal_newlines cs
      else if c = CHR 0x0D then CHR 0x0A # universal_newlines (d # cs)
      else c # universal_newlines (d # cs))"

fun lines_of :: "string \<Rightarrow> string list" where
  "lines_of [] = []"
| "lines_of (c # cs) =
     (if c = CHR 0x0A then [c] # lines_of cs
      else (case lines_of cs of [] \<Rightarrow> [[c]] | l # ls \<Rightarrow> (c # l) # ls))"

text \<open>\<^verbatim>\<open>s.split(sep)\<close> for a separator that is not empty.\<close>

function split_str :: "string \<Rightarrow> string \<Rightarrow> string list" where
  "split_str sep [] = [[]]"
| "split_str sep (c # cs) =
     (if sep \<noteq> [] \<and> startswith (c # cs) sep then [] # split_str sep (drop (length sep) (c # cs))
      else (case split_str sep cs of [] \<Rightarrow> [[c]] | w # ws \<Rightarrow> (c # w) # ws))"
  by pat_completeness auto
termination
  by (relation "measure (\<lambda>(sep, s). length s)") auto

text \<open>The workspace name of a note: from the first line that starts with the tag, what
  stands between the first and the second tag, stripped. None when no line has the tag.\<close>

definition workspace_of :: "string \<Rightarrow> exn + string option" where
  "workspace_of content =
     (case filter (\<lambda>line. startswith line ''workspace: '') (lines_of (universal_newlines content)) of
        [] \<Rightarrow> Inr None
      | line # _ \<Rightarrow>
         (case split_str ''workspace: '' line of
            _ # w # _ \<Rightarrow> Inr (Some (strip w))
          | _ \<Rightarrow> Inl IndexError))"

text \<open>The two halves of the loop body of \<^verbatim>\<open>cmd_link\<close>: the link in the workspace folder,
  and the hard link in the brief folder.\<close>

definition link_journal ::
  "env \<Rightarrow> pure_path \<Rightarrow> string \<Rightarrow> pure_path \<Rightarrow> (link_msg, 'e) state \<Rightarrow> unit result \<times> (link_msg, 'e) state" where
  "link_journal E workspaces_dir workspace note s =
     (let workspace_dir = child workspaces_dir workspace;
          link_path = child workspace_dir ''journal.md''
      in
      if \<not> is_dir E workspace_dir s then print (NoWorkspaceFolder workspace) s
      else if is_symlink E link_path s then print (AlreadyLinked workspace) s
      else if exists E link_path s then print (JournalNotSymlink workspace) s
      else (case resolve E note s of
              Inl e \<Rightarrow> raise e s
            | Inr target \<Rightarrow>
                thn (symlink_to E link_path target) (print (LinkedNote workspace note)) s))"

definition link_aibrief ::
  "env \<Rightarrow> pure_path \<Rightarrow> string \<Rightarrow> pure_path \<Rightarrow> (link_msg, 'e) state \<Rightarrow> unit result \<times> (link_msg, 'e) state" where
  "link_aibrief E aibrief_dir workspace note s =
     (let aibrief_link = child aibrief_dir (workspace @ ''.md'') in
      if is_dir E aibrief_dir s then
        thn (\<lambda>s. if exists E aibrief_link s then unlink E aibrief_link s else ret () s)
            (\<lambda>s. case (case resolve E note s of
                           Inl e \<Rightarrow> raise e s
                         | Inr target \<Rightarrow> hardlink_to E aibrief_link target s) of
                   (Ok u, s') \<Rightarrow> print (AibriefLinked workspace) s'
                 | (Raise e, s') \<Rightarrow> if is_os_error e then (Ok (), s') else (Raise e, s')
                 | r \<Rightarrow> r) s
      else ret () s)"

definition link_note ::
  "env \<Rightarrow> pure_path \<Rightarrow> pure_path \<Rightarrow> pure_path \<Rightarrow> (link_msg, 'e) state \<Rightarrow> unit result \<times> (link_msg, 'e) state" where
  "link_note E workspaces_dir aibrief_dir note =
     bnd (read_text E note) (\<lambda>content.
       case workspace_of content of
         Inl e \<Rightarrow> raise e
       | Inr None \<Rightarrow> ret ()
       | Inr (Some workspace) \<Rightarrow>
          if workspace = [] then ret ()
          else thn (link_journal E workspaces_dir workspace note)
                   (link_aibrief E aibrief_dir workspace note))"

definition cmd_link :: "'e runner \<Rightarrow> env \<Rightarrow> (link_msg, 'e) state \<Rightarrow> unit result \<times> (link_msg, 'e) state" where
  "cmd_link run E s =
     (let vault = Path ''../Notes/notes'';
          workspaces_dir = PurePath True (script_dir E)
      in
      case home E [] of
        None \<Rightarrow> raise RuntimeError s
      | Some h \<Rightarrow>
         (let aibrief_dir = child (PurePath True h) ''Dropbox/Apps/work-journal-reviewer'' in
          if \<not> exists E vault s then thn (print (VaultNotFound vault)) (sys_exit 1) s
          else
            thn (\<lambda>s. if exists E (child (PurePath True h) ''Dropbox/Apps'') s
                     then mkdir_parents E (is_abs aibrief_dir) (rev (parts aibrief_dir)) True s
                     else ret () s)
                (\<lambda>s. case subprocess_run run E [''grep'', ''-rl'', ''^workspace: '', path_str vault] None s of
                       (Failed e text, s') \<Rightarrow> thn (print ErrSearchingVault) (sys_exit 1) s'
                     | (Completed rc stdout stderr, s') \<Rightarrow>
                         for_each (link_note E workspaces_dir aibrief_dir)
                           (map Path (filter (\<lambda>p. p \<noteq> []) (split_on (CHR 0x0A) (strip stdout)))) s') s))"

section \<open>The export command\<close>

text \<open>
  \<^verbatim>\<open>shutil\<close> and \<^verbatim>\<open>chmod\<close> are not part of the script: they are parameters, functions on
  the files that fail with an exception or give the new files. They get their paths
  anchored at the working directory.
\<close>

record shutil =
  copy2 :: "string list \<Rightarrow> string list \<Rightarrow> fs \<Rightarrow> exn + fs"
  copytree :: "string list \<Rightarrow> string list \<Rightarrow> fs \<Rightarrow> exn + fs"
  rmtree :: "string list \<Rightarrow> fs \<Rightarrow> exn + fs"
  chmod :: "string list \<Rightarrow> nat \<Rightarrow> fs \<Rightarrow> exn + fs"

definition lift_fs :: "(fs \<Rightarrow> exn + fs) \<Rightarrow> ('m, 'e) state \<Rightarrow> unit result \<times> ('m, 'e) state" where
  "lift_fs f s = (case f (files s) of Inl e \<Rightarrow> (Raise e, s) | Inr F \<Rightarrow> (Ok (), s\<lparr>files := F\<rparr>))"

datatype export_msg =
    ErrExportWorkspaceNotFound string | ErrExportNoManifest string
  | ExportingTo pure_path | CopiedScript | CopiedRoot string | NoRootFile string
  | CopiedClaudeSub string nat | CreatedClaudeSub string
  | CopiedManifest string | CopiedWsClaudeMd string | CopiedPlans string
  | CopiedItems nat string string
  | SourceNote nat | SourceHint | SourceEntry string string
  | ExportComplete | ToSetUp pure_path string

record export_args =
  ea_workspace :: string
  ea_destination :: string

text \<open>The loop over the items of a workspace's own \<^verbatim>\<open>.claude\<close> subdirectory, with its
  counter.\<close>

fun copy_items ::
  "shutil \<Rightarrow> env \<Rightarrow> pure_path \<Rightarrow> pure_path list \<Rightarrow> nat \<Rightarrow> (export_msg, 'e) state \<Rightarrow> nat result \<times> (export_msg, 'e) state" where
  "copy_items sh E dest_dir [] copied s = ret copied s"
| "copy_items sh E dest_dir (item # items) copied s =
     (if \<not> is_symlink E item s then
        (let dest_item = child dest_dir (name_of item) in
         bnd (if is_dir E item s then
                thn (\<lambda>s. if exists E dest_item s then lift_fs (rmtree sh (anchor E dest_item)) s
                          else ret () s)
                    (lift_fs (copytree sh (anchor E item) (anchor E dest_item)))
              else lift_fs (copy2 sh (anchor E item) (anchor E dest_item)))
             (\<lambda>_. copy_items sh E dest_dir items (copied + 1)) s)
      else copy_items sh E dest_dir items copied s)"

text \<open>Everything \<^verbatim>\<open>cmd_export\<close> does before it reads the manifest again: the two checks
  and all the copying.\<close>

definition export_copy ::
  "shutil \<Rightarrow> env \<Rightarrow> export_args \<Rightarrow> pure_path \<Rightarrow> (export_msg, 'e) state \<Rightarrow> unit result \<times> (export_msg, 'e) state" where
  "export_copy sh E args export_path s =
     (let workspace_path = Path (ea_workspace args);
          workspace_toml = child workspace_path ''workspace.toml'';
          root_dir = PurePath True (script_dir E);
          script_path = child root_dir (script_name E);
          dest_script = child export_path ''workspace.py'';
          src_claude_dir = child root_dir ''.claude'';
          dest_claude_dir = child export_path ''.claude'';
          ws_export = joinpath export_path (Path (ea_workspace args));
          ws_claude_md = child workspace_path ''CLAUDE.md'';
          ws_plans = child workspace_path ''plans'';
          dest_plans = child ws_export ''plans'';
          ws_claude = child workspace_path ''.claude'';
          dest_claude = child ws_export ''.claude''
      in
      if \<not> exists E workspace_path s
        then thn (print (ErrExportWorkspaceNotFound (ea_workspace args))) (sys_exit 1) s
      else if \<not> exists E workspace_toml s
        then thn (print (ErrExportNoManifest (ea_workspace args))) (sys_exit 1) s
      else
       (thn (mkdir_parents E (is_abs export_path) (rev (parts export_path)) True)
       (thn (print (ExportingTo export_path))
       (thn (lift_fs (copy2 sh (anchor E script_path) (anchor E dest_script)))
       (thn (lift_fs (chmod sh (anchor E dest_script) 493))
       (thn (print CopiedScript)
       (thn (for_each (\<lambda>filename s.
               let src = child root_dir filename in
               if exists E src s
                 then thn (lift_fs (copy2 sh (anchor E src) (anchor E (child export_path filename))))
                          (print (CopiedRoot filename)) s
               else print (NoRootFile filename) s) [''CLAUDE.md'', ''README.md''])
       (thn (mkdir E dest_claude_dir True)
       (thn (for_each (\<lambda>subdir s.
               let src_dir = child src_claude_dir subdir; dest_dir = child dest_claude_dir subdir in
               if exists E src_dir s \<and> is_dir E src_dir s then
                 thn (\<lambda>s. if exists E dest_dir s then lift_fs (rmtree sh (anchor E dest_dir)) s
                           else ret () s)
                (thn (lift_fs (copytree sh (anchor E src_dir) (anchor E dest_dir)))
                (bnd (iterdir E dest_dir) (\<lambda>items.
                   print (CopiedClaudeSub subdir (length items))))) s
               else thn (mkdir E dest_dir True) (print (CreatedClaudeSub subdir)) s)
             [''agents'', ''skills''])
       (thn (mkdir E ws_export True)
       (thn (lift_fs (copy2 sh (anchor E workspace_toml) (anchor E (child ws_export ''workspace.toml''))))
       (thn (print (CopiedManifest (ea_workspace args)))
       (thn (\<lambda>s. if exists E ws_claude_md s
                 then thn (lift_fs (copy2 sh (anchor E ws_claude_md) (anchor E (child ws_export ''CLAUDE.md''))))
                          (print (CopiedWsClaudeMd (ea_workspace args))) s
                 else ret () s)
       (thn (\<lambda>s. if exists E ws_plans s \<and> is_dir E ws_plans s
                 then thn (\<lambda>s. if exists E dest_plans s then lift_fs (rmtree sh (anchor E dest_plans)) s
                                else ret () s)
                     (thn (lift_fs (copytree sh (anchor E ws_plans) (anchor E dest_plans)))
                          (print (CopiedPlans (ea_workspace args)))) s
                 else ret () s)
            (\<lambda>s. if exists E ws_claude s then
                   thn (mkdir E dest_claude True)
                       (for_each (\<lambda>subdir s.
                          let src_dir = child ws_claude subdir in
                          if exists E src_dir s \<and> is_dir E src_dir s then
                            (let dest_dir = child dest_claude subdir in
                             thn (mkdir E dest_dir True)
                            (bnd (iterdir E src_dir) (\<lambda>items.
                             bnd (copy_items sh E dest_dir items 0) (\<lambda>copied.
                               if copied \<noteq> 0
                                 then print (CopiedItems copied (ea_workspace args) subdir)
                               else ret ()))) s)
                          else ret () s) [''agents'', ''skills'']) s
                 else ret () s)))))))))))))) s)"

text \<open>The note about source entries and the closing lines. \<^verbatim>\<open>entry['path']\<close> raises
  KeyError for an entry without a path.\<close>

fun print_source_entries :: "repo_entry list \<Rightarrow> (export_msg, 'e) state \<Rightarrow> unit result \<times> (export_msg, 'e) state" where
  "print_source_entries [] s = ret () s"
| "print_source_entries (entry # entries) s =
     (case re_path entry of
        None \<Rightarrow> raise (KeyError ''path'') s
      | Some p \<Rightarrow>
         thn (print (SourceEntry p (case re_source entry of None \<Rightarrow> ''None'' | Some src \<Rightarrow> src)))
             (print_source_entries entries) s)"

definition export_report ::
  "toml_parser \<Rightarrow> env \<Rightarrow> export_args \<Rightarrow> pure_path \<Rightarrow> (export_msg, 'e) state \<Rightarrow> unit result \<times> (export_msg, 'e) state" where
  "export_report toml E args export_path =
     bnd (load_toml toml E (child (Path (ea_workspace args)) ''workspace.toml'')) (\<lambda>config.
       let source_entries =
             filter (\<lambda>r. re_source r \<noteq> None \<and> re_source r \<noteq> Some [])
                    (case cfg_repos config of None \<Rightarrow> [] | Some rs \<Rightarrow> rs)
       in
       thn (if source_entries \<noteq> []
              then thn (print (SourceNote (length source_entries)))
                  (thn (print SourceHint)
                       (print_source_entries source_entries))
            else ret ())
      (thn (print ExportComplete)
           (print (ToSetUp export_path (ea_workspace args)))))"

definition cmd_export ::
  "toml_parser \<Rightarrow> shutil \<Rightarrow> env \<Rightarrow> export_args \<Rightarrow> (export_msg, 'e) state \<Rightarrow> unit result \<times> (export_msg, 'e) state" where
  "cmd_export toml sh E args s =
     (case expanduser E (Path (ea_destination args)) of
        Inl e \<Rightarrow> raise e s
      | Inr expanded \<Rightarrow>
         (case resolve E expanded s of
            Inl e \<Rightarrow> raise e s
          | Inr export_path \<Rightarrow>
              thn (export_copy sh E args export_path) (export_report toml E args export_path) s))"

section \<open>Examples and auxiliary notions for the proofs\<close>



text \<open>A small world: the directory \<^verbatim>\<open>/w\<close> holds the workspace \<^verbatim>\<open>proj\<close> with one git
  repository \<^verbatim>\<open>repos/a\<close>.\<close>

definition demo_env :: env where
  "demo_env = \<lparr>cwd = [''w''], home = (\<lambda>u. if u = [] then Some [''home''] else None), script_dir = [''w''], script_name = ''workspace.py'', xdev = (\<lambda>a b. False)\<rparr>"

definition demo_files :: fs where
  "demo_files =
     [([''w''], Dir), ([''w'', ''proj''], Dir), ([''w'', ''proj'', ''repos''], Dir),
      ([''w'', ''proj'', ''repos'', ''a''], Dir), ([''w'', ''proj'', ''repos'', ''a'', ''.git''], Dir)]"

definition demo_state :: "(check_msg, unit) state" where
  "demo_state = \<lparr>files = demo_files, out = [], outside = ()\<rparr>"

definition demo_repo :: pure_path where
  "demo_repo = PurePath True [''w'', ''proj'', ''repos'', ''a'']"

text \<open>Three gits: one that reports nothing, one that reports a modified file and nothing
  else, and one whose \<^verbatim>\<open>status\<close> dies with exit code 128 after it has written a line,
  whose \<^verbatim>\<open>fetch\<close> cannot be started and whose \<^verbatim>\<open>log\<close> exits with 128 and no output.\<close>

definition silent_git :: "unit runner" where
  "silent_git argv dir F w = (Completed 0 [] [], F, w)"



text \<open>The same world seen from inside the repository, where no workspace is in sight.\<close>

definition inner_env :: env where
  "inner_env = \<lparr>cwd = [''w'', ''proj'', ''repos'', ''a''], home = (\<lambda>u. if u = [] then Some [''home''] else None), script_dir = [''w''], script_name = ''workspace.py'', xdev = (\<lambda>a b. False)\<rparr>"

text \<open>A workspace to set up: \<^verbatim>\<open>/w/proj\<close> with its manifest, next to a directory
  \<^verbatim>\<open>/w/data\<close>. The parser knows two manifests: one without a \<^verbatim>\<open>repos\<close> section, and one
  with two entries, the first a link to what the second creates.\<close>

definition alias_entry :: repo_entry where
  "alias_entry = \<lparr>re_path = Some ''repos/alias'', re_source = Some ''proj/repos/real'', re_remote = None\<rparr>"

definition real_entry :: repo_entry where
  "real_entry = \<lparr>re_path = Some ''repos/real'', re_source = Some ''data'', re_remote = None\<rparr>"

definition bare_entry :: repo_entry where
  "bare_entry = \<lparr>re_path = Some ''repos/a'', re_source = None, re_remote = None\<rparr>"

definition demo_toml :: toml_parser where
  "demo_toml text =
     (if text = ''# nothing'' then Some \<lparr>cfg_name = None, cfg_description = None, cfg_repos = None\<rparr>
      else if text = ''# two''
        then Some \<lparr>cfg_name = Some ''proj'', cfg_description = None,
                   cfg_repos = Some [alias_entry, real_entry]\<rparr>
      else None)"

definition setup_files :: "string \<Rightarrow> fs" where
  "setup_files manifest =
     [([''w''], Dir), ([''w'', ''data''], Dir), ([''w'', ''proj''], Dir),
      ([''w'', ''proj'', ''workspace.toml''], File manifest)]"

definition setup_state :: "string \<Rightarrow> (setup_msg, unit) state" where
  "setup_state manifest = \<lparr>files = setup_files manifest, out = [], outside = ()\<rparr>"

definition bare_state :: "(setup_msg, unit) state" where
  "bare_state = \<lparr>files = demo_files, out = [], outside = ()\<rparr>"

text \<open>A vault \<^verbatim>\<open>/Notes/notes\<close> with one note for the workspace \<^verbatim>\<open>demo\<close>, which lies next
  to the script in \<^verbatim>\<open>/w\<close>; no brief folder. In the second world the journal of the
  workspace is already a link, to a file that is not there.\<close>

definition note_text :: string where
  "note_text = ''workspace: demo'' @ [CHR 0x0A] @ ''remember the milk'' @ [CHR 0x0A]"

definition link_files :: fs where
  "link_files =
     [([''w''], Dir), ([''w'', ''demo''], Dir), ([''Notes''], Dir), ([''Notes'', ''notes''], Dir),
      ([''Notes'', ''notes'', ''n.md''], File note_text)]"

definition link_state :: "(link_msg, unit) state" where
  "link_state = \<lparr>files = link_files, out = [], outside = ()\<rparr>"

definition dangling_state :: "(link_msg, unit) state" where
  "dangling_state =
     \<lparr>files = link_files @ [([''w'', ''demo'', ''journal.md''], Symlink (PurePath True [''gone'']))],
      out = [], outside = ()\<rparr>"

definition demo_note :: pure_path where
  "demo_note = Path ''../Notes/notes/n.md''"

definition conflict_state :: "(link_msg, unit) state" where
  "conflict_state =
     \<lparr>files = link_files @ [([''w'', ''demo'', ''journal.md''], File ''my own journal'')],
      out = [], outside = ()\<rparr>"


text \<open>A plain \<^verbatim>\<open>shutil\<close> for the examples: files are copied by content, trees entry by
  entry, and modes are not kept.\<close>

definition plain_copy2 :: "string list \<Rightarrow> string list \<Rightarrow> fs \<Rightarrow> exn + fs" where
  "plain_copy2 src dst F =
     (case stat_at F True src of
        Inl e \<Rightarrow> Inl (exn_of e)
      | Inr (File c) \<Rightarrow>
         (case locate F True dst of
            Inl e \<Rightarrow> Inl (exn_of e)
          | Inr loc \<Rightarrow>
             (case node_at F loc of
                Some Dir \<Rightarrow> Inl IsADirectoryError
              | _ \<Rightarrow> Inr (AList.update loc (File c) F)))
      | Inr _ \<Rightarrow> Inl IsADirectoryError)"

definition plain_copytree :: "string list \<Rightarrow> string list \<Rightarrow> fs \<Rightarrow> exn + fs" where
  "plain_copytree src dst F =
     (case locate F True src of
        Inl e \<Rightarrow> Inl (exn_of e)
      | Inr sloc \<Rightarrow>
         (case locate F False dst of
            Inl e \<Rightarrow> Inl (exn_of e)
          | Inr dloc \<Rightarrow>
             if node_at F sloc \<noteq> Some Dir then Inl NotADirectoryError
             else if node_at F dloc \<noteq> None then Inl FileExistsError
             else Inr (foldl (\<lambda>G (k, n). AList.update (dloc @ drop (length sloc) k) n G) F
                         (filter (\<lambda>(k, n). take (length sloc) k = sloc) F))))"

definition plain_rmtree :: "string list \<Rightarrow> fs \<Rightarrow> exn + fs" where
  "plain_rmtree p F =
     (case locate F False p of
        Inl e \<Rightarrow> Inl (exn_of e)
      | Inr loc \<Rightarrow>
         if node_at F loc \<noteq> Some Dir then Inl NotADirectoryError
         else Inr (filter (\<lambda>(k, n). take (length loc) k \<noteq> loc) F))"

definition plain_chmod :: "string list \<Rightarrow> nat \<Rightarrow> fs \<Rightarrow> exn + fs" where
  "plain_chmod p mode F = (if exists_fs F p then Inr F else Inl FileNotFoundError)"

definition plain_shutil :: shutil where
  "plain_shutil = \<lparr>copy2 = plain_copy2, copytree = plain_copytree, rmtree = plain_rmtree,
                    chmod = plain_chmod\<rparr>"

text \<open>A workspace to export, with a manifest of one entry that has a local source.\<close>

definition source_toml :: toml_parser where
  "source_toml text =
     (if text = ''# one source''
        then Some \<lparr>cfg_name = Some ''proj'', cfg_description = None, cfg_repos = Some [real_entry]\<rparr>
      else None)"

definition exported_files :: fs where
  "exported_files =
     [([''w''], Dir), ([''w'', ''workspace.py''], File ''#!/usr/bin/env python3''),
      ([''w'', ''proj''], Dir), ([''w'', ''proj'', ''workspace.toml''], File ''# one source'')]"

definition export_state :: "(export_msg, unit) state" where
  "export_state = \<lparr>files = exported_files, out = [], outside = ()\<rparr>"

definition demo_export_args :: export_args where
  "demo_export_args = \<lparr>ea_workspace = ''proj'', ea_destination = ''/out''\<rparr>"

definition copied_state :: "(export_msg, unit) state" where
  "copied_state =
     \<lparr>files = exported_files @
        [([''out''], Dir), ([''out'', ''workspace.py''], File ''#!/usr/bin/env python3''),
         ([''out'', ''.claude''], Dir), ([''out'', ''.claude'', ''agents''], Dir),
         ([''out'', ''.claude'', ''skills''], Dir), ([''out'', ''proj''], Dir),
         ([''out'', ''proj'', ''workspace.toml''], File ''# one source'')],
      out = [ExportingTo (PurePath True [''out'']), CopiedScript,
             NoRootFile ''CLAUDE.md'', NoRootFile ''README.md'',
             CreatedClaudeSub ''agents'', CreatedClaudeSub ''skills'', CopiedManifest ''proj''],
      outside = ()\<rparr>"

text \<open>The \<^verbatim>\<open>.claude\<close> part of a workspace is ready when \<^verbatim>\<open>setup_claude_symlinks\<close> finds
  nothing to do: there is no parent \<^verbatim>\<open>.claude\<close>, or the three directories are there, each
  \<^verbatim>\<open>core\<close> link exists or has nothing to point at, and the settings file exists.\<close>

definition claude_ready :: "env \<Rightarrow> pure_path \<Rightarrow> ('m, 'e) state \<Rightarrow> bool" where
  "claude_ready E workspace_path s =
     (let parent_claude = Path ''.claude''; wc = child workspace_path ''.claude'' in
      exists E parent_claude s \<longrightarrow>
        is_dir E wc s \<and> is_dir E (child wc ''agents'') s \<and> is_dir E (child wc ''skills'') s
        \<and> (exists E (child (child wc ''agents'') ''core'') s \<or> \<not> exists E (child parent_claude ''agents'') s)
        \<and> (exists E (child (child wc ''skills'') ''core'') s \<or> \<not> exists E (child parent_claude ''skills'') s)
        \<and> exists E (child wc ''settings.local.json'') s)"

text \<open>The workspace of the two-entry manifest after one run of \<^verbatim>\<open>setup\<close>, and after
  two.\<close>

definition two_config :: config where
  "two_config = \<lparr>cfg_name = Some ''proj'', cfg_description = None,
                  cfg_repos = Some [alias_entry, real_entry]\<rparr>"

definition once_files :: fs where
  "once_files = setup_files ''# two'' @
     [([''w'', ''proj'', ''repos''], Dir), ([''w'', ''proj'', ''plans''], Dir),
      ([''w'', ''proj'', ''CLAUDE.md''], File (claude_md_content two_config ''proj'')),
      ([''w'', ''proj'', ''repos'', ''real''], Symlink (PurePath True [''w'', ''data'']))]"

definition once_out :: "setup_msg list" where
  "once_out = [CreatedPlans, CreatedClaudeMd, SettingUpSymlinks, WarnNoParentClaude, SettingUpRepos,
               SourceMissing (Path ''repos/alias'') ''proj/repos/real'',
               Linked (Path ''repos/real'') ''data'', WorkspaceReady ''proj'']"

definition once_state :: "(setup_msg, unit) state" where
  "once_state = \<lparr>files = once_files, out = once_out, outside = ()\<rparr>"

definition twice_state :: "(setup_msg, unit) state" where
  "twice_state =
     \<lparr>files = once_files @ [([''w'', ''proj'', ''repos'', ''alias''], Symlink (PurePath True [''w'', ''data'']))],
      out = once_out @ [SettingUpSymlinks, WarnNoParentClaude, SettingUpRepos,
                        Linked (Path ''repos/alias'') ''proj/repos/real'',
                        AlreadyExists (Path ''repos/real''), WorkspaceReady ''proj''],
      outside = ()\<rparr>"

text \<open>A workspace that is completely set up, below a directory that has a \<^verbatim>\<open>.claude\<close> with
  agents and without skills.\<close>

definition ready_files :: fs where
  "ready_files =
     [([''w''], Dir), ([''w'', ''.claude''], Dir), ([''w'', ''.claude'', ''agents''], Dir),
      ([''w'', ''data''], Dir), ([''w'', ''proj''], Dir),
      ([''w'', ''proj'', ''workspace.toml''], File ''# two''),
      ([''w'', ''proj'', ''repos''], Dir), ([''w'', ''proj'', ''plans''], Dir),
      ([''w'', ''proj'', ''CLAUDE.md''], File ''# proj''),
      ([''w'', ''proj'', ''.claude''], Dir), ([''w'', ''proj'', ''.claude'', ''agents''], Dir),
      ([''w'', ''proj'', ''.claude'', ''skills''], Dir),
      ([''w'', ''proj'', ''.claude'', ''agents'', ''core''], Symlink (Path ''../../../.claude/agents'')),
      ([''w'', ''proj'', ''.claude'', ''settings.local.json''], File starter_settings),
      ([''w'', ''proj'', ''repos'', ''real''], Symlink (PurePath True [''w'', ''data''])),
      ([''w'', ''proj'', ''repos'', ''alias''], Symlink (PurePath True [''w'', ''data'']))]"

definition ready_state :: "(setup_msg, unit) state" where
  "ready_state = \<lparr>files = ready_files, out = [], outside = ()\<rparr>"

text \<open>One file system extends another when every entry of the first is in the second as it
  was. A statement is additive when it only ever extends the files, and an external program
  adds only when it does so whatever it is given.\<close>

definition extends :: "fs \<Rightarrow> fs \<Rightarrow> bool" where
  "extends F F' = (\<forall>k n. map_of F k = Some n \<longrightarrow> map_of F' k = Some n)"

definition additive :: "(('m, 'e) state \<Rightarrow> 'a result \<times> ('m, 'e) state) \<Rightarrow> bool" where
  "additive m = (\<forall>s r s'. m s = (r, s') \<longrightarrow> extends (files s) (files s'))"

definition adds_only :: "'e runner \<Rightarrow> bool" where
  "adds_only run = (\<forall>argv dir F w. extends F (fst (snd (run argv dir F w))))"


text \<open>A git whose \<^verbatim>\<open>clone\<close> fails, and a manifest entry that is to be cloned.\<close>

definition failing_clone :: "unit runner" where
  "failing_clone argv dir F w = (Completed 128 [] ''fatal: repository not found'', F, w)"

definition remote_entry :: repo_entry where
  "remote_entry = \<lparr>re_path = Some ''repos/far'', re_source = None, re_remote = Some ''https://example.org/far.git''\<rparr>"







section \<open>Facts about the monad and the status checker\<close>

lemmas monad_defs = bnd_def thn_def ret_def print_def do_if_def sys_exit_def raise_def

lemma bnd_Ok: "m s = (Ok a, s') \<Longrightarrow> bnd m f s = f a s'"
  by (simp add: bnd_def)










lemma thn_print: "thn (print m) k s = k (s\<lparr>out := out s @ [m]\<rparr>)"
  by (simp add: thn_def bnd_def print_def)










lemmas fs_defs = exists_def exists_fs_def is_dir_def is_dir_fs_def is_symlink_def
  is_symlink_fs_def stat_at_def locate_def max_hops_def node_at_def anchor_def child_def
  joinpath_def Path_def name_of_def resolve_def

lemmas demo_defs = demo_env_def demo_files_def demo_state_def demo_repo_def











lemma iterdir_state: "iterdir E p s = (r, s') \<Longrightarrow> s' = s"
  by (auto simp: iterdir_def split: sum.splits option.splits node.splits)

lemma iterdir_out: "iterdir E p (s\<lparr>out := x\<rparr>) = (fst (iterdir E p s), s\<lparr>out := x\<rparr>)"
  by (auto simp: iterdir_def split: sum.splits option.splits node.splits)

lemma find_workspaces_out:
  "find_workspaces E p (s\<lparr>out := x\<rparr>) = (fst (find_workspaces E p s), s\<lparr>out := x\<rparr>)"
proof -
  obtain r where r: "iterdir E p s = (r, s)"
    using iterdir_state by (cases "iterdir E p s") blast
  show ?thesis
    by (cases r) (simp_all add: find_workspaces_def bnd_def ret_def iterdir_out r is_dir_def)
qed

text \<open>
  Claim C5. \<^verbatim>\<open>gitcheck\<close> leaves with exit code 1 when the workspace it was given does not
  exist, and when it exists and has no \<^verbatim>\<open>repos\<close> directory; when no workspace was given,
  the current directory has no \<^verbatim>\<open>repos\<close> directory and the search finds no workspace
  below it, the command prints that no workspaces were found and leaves with code 0. In all
  three cases the files are untouched.
\<close>

theorem gitcheck_exit_codes:
  "(ca_workspace args = Some w \<and> w \<noteq> [] \<and> \<not> exists E (child (PurePath True (cwd E)) w) s
      \<longrightarrow> cmd_check run E args s =
            (Exit 1, s\<lparr>out := out s @ [CheckingBanner] @ (if ca_fetch args then [FetchingBanner] else [])
                                  @ [BlankLine, WorkspaceNotFound w]\<rparr>))
   \<and> (ca_workspace args = Some w \<and> w \<noteq> [] \<and> exists E (child (PurePath True (cwd E)) w) s
        \<and> \<not> is_dir E (child (child (PurePath True (cwd E)) w) ''repos'') s
      \<longrightarrow> cmd_check run E args s =
            (Exit 1, s\<lparr>out := out s @ [CheckingBanner] @ (if ca_fetch args then [FetchingBanner] else [])
                                  @ [BlankLine, NotAWorkspace w]\<rparr>))
   \<and> ((ca_workspace args = None \<or> ca_workspace args = Some [])
        \<and> \<not> is_dir E (child (PurePath True (cwd E)) ''repos'') s
        \<and> fst (find_workspaces E (PurePath True (cwd E)) s) = Ok []
      \<longrightarrow> cmd_check run E args s =
            (Exit 0, s\<lparr>out := out s @ [CheckingBanner] @ (if ca_fetch args then [FetchingBanner] else [])
                                  @ [BlankLine, NoWorkspacesFound]\<rparr>))"
proof (intro conjI impI)
  assume "ca_workspace args = Some w \<and> w \<noteq> [] \<and> \<not> exists E (child (PurePath True (cwd E)) w) s"
  then show "cmd_check run E args s =
            (Exit 1, s\<lparr>out := out s @ [CheckingBanner] @ (if ca_fetch args then [FetchingBanner] else [])
                                  @ [BlankLine, WorkspaceNotFound w]\<rparr>)"
    by (simp add: cmd_check_def check_named_def monad_defs Let_def exists_def is_dir_def)
next
  assume "ca_workspace args = Some w \<and> w \<noteq> [] \<and> exists E (child (PurePath True (cwd E)) w) s
        \<and> \<not> is_dir E (child (child (PurePath True (cwd E)) w) ''repos'') s"
  then show "cmd_check run E args s =
            (Exit 1, s\<lparr>out := out s @ [CheckingBanner] @ (if ca_fetch args then [FetchingBanner] else [])
                                  @ [BlankLine, NotAWorkspace w]\<rparr>)"
    by (simp add: cmd_check_def check_named_def monad_defs Let_def exists_def is_dir_def)
next
  assume a: "(ca_workspace args = None \<or> ca_workspace args = Some [])
        \<and> \<not> is_dir E (child (PurePath True (cwd E)) ''repos'') s
        \<and> fst (find_workspaces E (PurePath True (cwd E)) s) = Ok []"
  then have u: "check_unnamed run E f (PurePath True (cwd E))
               (is_dir E (child (PurePath True (cwd E)) ''repos'') s) (s\<lparr>out := x\<rparr>)
       = (Exit 0, s\<lparr>out := x @ [NoWorkspacesFound]\<rparr>)" for x f
    by (simp add: check_unnamed_def find_workspaces_out monad_defs)
  from a have "ca_workspace args = None \<or> ca_workspace args = Some []"
    by simp
  then show "cmd_check run E args s =
            (Exit 0, s\<lparr>out := out s @ [CheckingBanner] @ (if ca_fetch args then [FetchingBanner] else [])
                                  @ [BlankLine, NoWorkspacesFound]\<rparr>)"
  proof
    assume "ca_workspace args = None"
    then show ?thesis
      by (simp add: cmd_check_def Let_def monad_defs u)
  next
    assume "ca_workspace args = Some []"
    then show ?thesis
      by (simp add: cmd_check_def Let_def monad_defs u)
  qed
qed

theorem gitcheck_exit_codes_witness:
  "cmd_check silent_git demo_env \<lparr>ca_workspace = Some ''nope'', ca_fetch = False\<rparr> demo_state
     = (Exit 1, demo_state\<lparr>out := [CheckingBanner, BlankLine, WorkspaceNotFound ''nope'']\<rparr>)
   \<and> cmd_check silent_git demo_env \<lparr>ca_workspace = Some ''proj/repos'', ca_fetch = True\<rparr> demo_state
     = (Exit 1, demo_state\<lparr>out := [CheckingBanner, FetchingBanner, BlankLine, NotAWorkspace ''proj/repos'']\<rparr>)
   \<and> cmd_check silent_git inner_env \<lparr>ca_workspace = None, ca_fetch = False\<rparr> demo_state
     = (Exit 0, demo_state\<lparr>out := [CheckingBanner, BlankLine, NoWorkspacesFound]\<rparr>)"
proof (intro conjI)
  have "\<not> exists demo_env (child (PurePath True (cwd demo_env)) ''nope'') demo_state"
    by (simp add: fs_defs demo_defs)
  then show "cmd_check silent_git demo_env \<lparr>ca_workspace = Some ''nope'', ca_fetch = False\<rparr> demo_state
     = (Exit 1, demo_state\<lparr>out := [CheckingBanner, BlankLine, WorkspaceNotFound ''nope'']\<rparr>)"
    using gitcheck_exit_codes[of "\<lparr>ca_workspace = Some ''nope'', ca_fetch = False\<rparr>" "''nope''"
        demo_env demo_state silent_git]
    by (simp add: demo_state_def)
next
  have "exists demo_env (child (PurePath True (cwd demo_env)) ''proj/repos'') demo_state
      \<and> \<not> is_dir demo_env (child (child (PurePath True (cwd demo_env)) ''proj/repos'') ''repos'') demo_state"
    by (simp add: fs_defs demo_defs)
  then show "cmd_check silent_git demo_env \<lparr>ca_workspace = Some ''proj/repos'', ca_fetch = True\<rparr> demo_state
     = (Exit 1, demo_state\<lparr>out := [CheckingBanner, FetchingBanner, BlankLine, NotAWorkspace ''proj/repos'']\<rparr>)"
    using gitcheck_exit_codes[of "\<lparr>ca_workspace = Some ''proj/repos'', ca_fetch = True\<rparr>" "''proj/repos''"
        demo_env demo_state silent_git]
    by (simp add: demo_state_def)
next
  have "\<not> is_dir inner_env (child (PurePath True (cwd inner_env)) ''repos'') demo_state
      \<and> fst (find_workspaces inner_env (PurePath True (cwd inner_env)) demo_state) = Ok []"
    by (simp add: find_workspaces_def iterdir_def children_def sorted_paths_def startswith_def
        monad_defs fs_defs demo_defs inner_env_def)
  then show "cmd_check silent_git inner_env \<lparr>ca_workspace = None, ca_fetch = False\<rparr> demo_state
     = (Exit 0, demo_state\<lparr>out := [CheckingBanner, BlankLine, NoWorkspacesFound]\<rparr>)"
    using gitcheck_exit_codes[of "\<lparr>ca_workspace = None, ca_fetch = False\<rparr>" "[]"
        inner_env demo_state silent_git]
    by (simp add: demo_state_def)
qed



lemma for_each_append:
  "for_each body (xs @ ys) s = thn (for_each body xs) (for_each body ys) s"
proof (induction xs arbitrary: s)
  case Nil
  show ?case by (simp add: thn_def bnd_def ret_def)
next
  case (Cons x xs)
  show ?case
    by (cases "body x s") (auto simp: thn_def bnd_def Cons.IH[unfolded thn_def bnd_def] split: result.splits)
qed

lemma read_text_exists: "read_text E p s = (Ok text, s') \<Longrightarrow> exists E p s"
  by (auto simp: read_text_def exists_def exists_fs_def split: sum.splits node.splits)

lemma read_text_state: "read_text E p s = (r, s') \<Longrightarrow> s' = s"
  by (auto simp: read_text_def split: sum.splits node.splits)

text \<open>
  Claim C10. When the workspace exists and its manifest is a readable file that parses to a
  table without the key \<^verbatim>\<open>repos\<close>, \<^verbatim>\<open>setup\<close> prints the error and leaves with exit
  code 1; the files are as they were.
\<close>

theorem setup_no_repos_section:
  assumes "exists E (Path (sa_workspace args)) s"
    and "read_text E (child (Path (sa_workspace args)) ''workspace.toml'') s = (Ok text, s)"
    and "toml text = Some config"
    and "cfg_repos config = None"
  shows "cmd_setup toml run E args s = (Exit 1, s\<lparr>out := out s @ [ErrNoReposSection]\<rparr>)"
proof -
  have "exists E (child (Path (sa_workspace args)) ''workspace.toml'') s"
    using assms(2) by (rule read_text_exists)
  then show ?thesis
    using assms by (simp add: cmd_setup_def load_toml_def Let_def monad_defs)
qed

theorem setup_no_repos_section_witness:
  "cmd_setup demo_toml silent_git demo_env \<lparr>sa_workspace = ''proj''\<rparr> (setup_state ''# nothing'')
     = (Exit 1, (setup_state ''# nothing'')\<lparr>out := [ErrNoReposSection]\<rparr>)"
proof -
  have 1: "exists demo_env (Path (sa_workspace \<lparr>sa_workspace = ''proj''\<rparr>)) (setup_state ''# nothing'')"
    by (simp add: fs_defs demo_defs setup_state_def setup_files_def)
  have 2: "read_text demo_env (child (Path (sa_workspace \<lparr>sa_workspace = ''proj''\<rparr>)) ''workspace.toml'')
             (setup_state ''# nothing'') = (Ok ''# nothing'', setup_state ''# nothing'')"
    by (simp add: read_text_def fs_defs demo_defs setup_state_def setup_files_def)
  have 3: "demo_toml ''# nothing'' = Some \<lparr>cfg_name = None, cfg_description = None, cfg_repos = None\<rparr>"
    by (simp add: demo_toml_def)
  show ?thesis
    using setup_no_repos_section[where toml = demo_toml and run = silent_git, OF 1 2 3]
    by (simp add: setup_state_def)
qed

text \<open>
  Claim C4, as amended. An entry with a path and neither \<^verbatim>\<open>remote\<close> nor \<^verbatim>\<open>source\<close>
  raises nothing and changes no file, and the loop goes on with the entries after it. What
  is printed for it is the warning that it has no remote or source when its target path
  does not exist, and the notice that the path already exists when it does.
\<close>

theorem entry_without_remote_or_source:
  assumes "for_each (setup_repo run E workspace_path) pre s = (Ok (), s1)"
    and "re_path repo = Some p"
    and "re_source repo = None"
    and "re_remote repo = None"
  shows "for_each (setup_repo run E workspace_path) (pre @ repo # post) s =
           for_each (setup_repo run E workspace_path) post
             (s1\<lparr>out := out s1 @
                 [if exists E (joinpath workspace_path (Path p)) s1
                      \<or> is_symlink E (joinpath workspace_path (Path p)) s1
                  then AlreadyExists (Path p) else NoRemoteOrSource (Path p)]\<rparr>)"
proof -
  have "setup_repo run E workspace_path repo s1 =
          (Ok (), s1\<lparr>out := out s1 @
                 [if exists E (joinpath workspace_path (Path p)) s1
                      \<or> is_symlink E (joinpath workspace_path (Path p)) s1
                  then AlreadyExists (Path p) else NoRemoteOrSource (Path p)]\<rparr>)"
    using assms(2-4) by (simp add: setup_repo_def Let_def print_def)
  then show ?thesis
    using assms(1) by (simp add: for_each_append thn_def bnd_def)
qed

theorem entry_without_remote_or_source_witness:
  "for_each (setup_repo silent_git demo_env (Path ''proj'')) [bare_entry, bare_entry\<lparr>re_path := Some ''repos/b''\<rparr>] bare_state
     = (Ok (), bare_state\<lparr>out := [AlreadyExists (Path ''repos/a''), NoRemoteOrSource (Path ''repos/b'')]\<rparr>)"
proof -
  have 0: "for_each (setup_repo silent_git demo_env (Path ''proj'')) [] bare_state = (Ok (), bare_state)"
    by (simp add: ret_def)
  have a: "for_each (setup_repo silent_git demo_env (Path ''proj'')) [bare_entry] bare_state
             = (Ok (), bare_state\<lparr>out := [AlreadyExists (Path ''repos/a'')]\<rparr>)"
    using entry_without_remote_or_source[OF 0, of bare_entry "''repos/a''" "[]"]
    by (simp add: bare_entry_def ret_def fs_defs demo_defs bare_state_def)
  show ?thesis
    using entry_without_remote_or_source[OF a, of "bare_entry\<lparr>re_path := Some ''repos/b''\<rparr>" "''repos/b''" "[]"]
    by (simp add: bare_entry_def ret_def fs_defs demo_defs bare_state_def)
qed

text \<open>
  Claim C4 as stated fails where the target path of such an entry exists: the entry is
  skipped with the notice of an existing path, and no warning is printed.
\<close>

theorem entry_without_remote_or_source_counterexample:
  "re_source bare_entry = None \<and> re_remote bare_entry = None \<and> re_path bare_entry = Some ''repos/a''
   \<and> setup_repo silent_git demo_env (Path ''proj'') bare_entry bare_state
       = (Ok (), bare_state\<lparr>out := [AlreadyExists (Path ''repos/a'')]\<rparr>)"
  by (simp add: setup_repo_def bare_entry_def Let_def print_def fs_defs demo_defs bare_state_def)



section \<open>Path resolution when files are added\<close>

lemma walk_mono:
  "walk h F fl cur p = Inr loc \<Longrightarrow> node_at F loc \<noteq> None
   \<Longrightarrow> (\<And>k n. map_of F k = Some n \<Longrightarrow> map_of F' k = Some n)
   \<Longrightarrow> walk h F' fl cur p = Inr loc"
proof (induction h F fl cur p rule: walk.induct)
  case (1 hops F follow cur)
  then show ?case by simp
next
  case (2 hops F follow cur c cs)
  note sub = "2.prems"(3)
  show ?case
  proof (cases "c = ''..''")
    case True
    then show ?thesis using 2 by simp
  next
    case False
    show ?thesis
    proof (cases "map_of F (cur @ [c])")
      case None
      then show ?thesis using "2.prems"(1,2) False by (auto simp: node_at_def split: if_splits)
    next
      case (Some n)
      then have F': "map_of F' (cur @ [c]) = Some n" by (rule sub)
      show ?thesis
      proof (cases n)
        case (File x)
        then show ?thesis using "2.prems"(1,2) False Some F' by (auto split: if_splits)
      next
        case Dir
        then show ?thesis using "2.IH"(2)[OF False Some Dir] "2.prems" False Some F' by simp
      next
        case (Symlink t)
        show ?thesis
        proof (cases "cs = [] \<and> \<not> follow")
          case True
          then show ?thesis using "2.prems"(1) False Some F' Symlink by auto
        next
          case nf: False
          show ?thesis
          proof (cases "hops = 0")
            case True
            then show ?thesis using "2.prems"(1) False Some Symlink nf by auto
          next
            case h: False
            have "walk (hops - 1) F follow (if is_abs t then [] else cur) (parts t @ cs) = Inr loc"
              using "2.prems"(1) False Some Symlink nf h by auto
            then have "walk (hops - 1) F' follow (if is_abs t then [] else cur) (parts t @ cs) = Inr loc"
              using "2.IH"(3)[OF False Some Symlink nf h] "2.prems"(2) sub by simp
            then show ?thesis using False F' Symlink nf h by auto
          qed
        qed
      qed
    qed
  qed
qed






lemma create_at_out: "create_at E p n s = (r, s') \<Longrightarrow> out s' = out s"
  by (auto simp: create_at_def split: sum.splits option.splits)

text \<open>
  Claim C2, as amended. For a note whose workspace directory exists, the report that the
  note is already linked is produced exactly when the journal path is a symbolic link; what
  the link points at is not looked at. When the journal path is not a link and something
  exists there, the conflict is reported and no file is changed.
\<close>

theorem journal_link_report:
  assumes "is_dir E (child workspaces_dir w) s"
  shows "(link_journal E workspaces_dir w note s = (Ok (), s\<lparr>out := out s @ [AlreadyLinked w]\<rparr>))
          = is_symlink E (child (child workspaces_dir w) ''journal.md'') s
       \<and> (\<not> is_symlink E (child (child workspaces_dir w) ''journal.md'') s
           \<and> exists E (child (child workspaces_dir w) ''journal.md'') s
          \<longrightarrow> link_journal E workspaces_dir w note s = (Ok (), s\<lparr>out := out s @ [JournalNotSymlink w]\<rparr>))"
proof (intro conjI impI)
  show "(link_journal E workspaces_dir w note s = (Ok (), s\<lparr>out := out s @ [AlreadyLinked w]\<rparr>))
          = is_symlink E (child (child workspaces_dir w) ''journal.md'') s"
  proof
    assume r: "link_journal E workspaces_dir w note s = (Ok (), s\<lparr>out := out s @ [AlreadyLinked w]\<rparr>)"
    show "is_symlink E (child (child workspaces_dir w) ''journal.md'') s"
    proof (rule ccontr)
      assume n: "\<not> is_symlink E (child (child workspaces_dir w) ''journal.md'') s"
      show False
      proof (cases "exists E (child (child workspaces_dir w) ''journal.md'') s")
        case True
        then have "link_journal E workspaces_dir w note s = (Ok (), s\<lparr>out := out s @ [JournalNotSymlink w]\<rparr>)"
          using assms n by (simp add: link_journal_def Let_def print_def)
        with r have "out (s\<lparr>out := out s @ [JournalNotSymlink w]\<rparr>) = out (s\<lparr>out := out s @ [AlreadyLinked w]\<rparr>)"
          by simp
        then show False by simp
      next
        case False
        show False
        proof (cases "resolve E note s")
          case (Inl e)
          then have "link_journal E workspaces_dir w note s = (Raise e, s)"
            using assms n False by (simp add: link_journal_def Let_def raise_def)
          with r show False by simp
        next
          case (Inr target)
          obtain r1 s1 where c: "symlink_to E (child (child workspaces_dir w) ''journal.md'') target s = (r1, s1)"
            by (cases "symlink_to E (child (child workspaces_dir w) ''journal.md'') target s")
          then have o: "out s1 = out s"
            by (simp add: symlink_to_def create_at_out)
          have l: "link_journal E workspaces_dir w note s =
                     thn (symlink_to E (child (child workspaces_dir w) ''journal.md'') target)
                         (print (LinkedNote w note)) s"
            using assms n False Inr by (simp add: link_journal_def Let_def)
          show False
          proof (cases r1)
            case (Ok u)
            then have "link_journal E workspaces_dir w note s = (Ok (), s1\<lparr>out := out s1 @ [LinkedNote w note]\<rparr>)"
              using l c by (simp add: thn_def bnd_def print_def)
            with r have "out (s1\<lparr>out := out s1 @ [LinkedNote w note]\<rparr>) = out (s\<lparr>out := out s @ [AlreadyLinked w]\<rparr>)"
              by simp
            then show False using o by simp
          next
            case (Exit n)
            then show False using l c r by (simp add: thn_def bnd_def)
          next
            case (Raise e)
            then show False using l c r by (simp add: thn_def bnd_def)
          qed
        qed
      qed
    qed
  next
    assume "is_symlink E (child (child workspaces_dir w) ''journal.md'') s"
    then show "link_journal E workspaces_dir w note s = (Ok (), s\<lparr>out := out s @ [AlreadyLinked w]\<rparr>)"
      using assms by (simp add: link_journal_def Let_def print_def)
  qed
next
  assume "\<not> is_symlink E (child (child workspaces_dir w) ''journal.md'') s
           \<and> exists E (child (child workspaces_dir w) ''journal.md'') s"
  then show "link_journal E workspaces_dir w note s = (Ok (), s\<lparr>out := out s @ [JournalNotSymlink w]\<rparr>)"
    using assms by (simp add: link_journal_def Let_def print_def)
qed

theorem journal_link_report_witness:
  "link_journal demo_env (PurePath True [''w'']) ''demo'' demo_note dangling_state
     = (Ok (), dangling_state\<lparr>out := [AlreadyLinked ''demo'']\<rparr>)
   \<and> link_journal demo_env (PurePath True [''w'']) ''demo'' demo_note conflict_state
     = (Ok (), conflict_state\<lparr>out := [JournalNotSymlink ''demo'']\<rparr>)"
proof
  have d: "is_dir demo_env (child (PurePath True [''w'']) ''demo'') dangling_state"
    by (simp add: fs_defs demo_defs dangling_state_def link_files_def)
  have "is_symlink demo_env (child (child (PurePath True [''w'']) ''demo'') ''journal.md'') dangling_state"
    by (simp add: fs_defs demo_defs dangling_state_def link_files_def)
  then show "link_journal demo_env (PurePath True [''w'']) ''demo'' demo_note dangling_state
     = (Ok (), dangling_state\<lparr>out := [AlreadyLinked ''demo'']\<rparr>)"
    using journal_link_report[OF d, of demo_note] by (simp add: dangling_state_def)
  have c: "is_dir demo_env (child (PurePath True [''w'']) ''demo'') conflict_state"
    by (simp add: fs_defs demo_defs conflict_state_def link_files_def)
  have "\<not> is_symlink demo_env (child (child (PurePath True [''w'']) ''demo'') ''journal.md'') conflict_state
      \<and> exists demo_env (child (child (PurePath True [''w'']) ''demo'') ''journal.md'') conflict_state"
    by (simp add: fs_defs demo_defs conflict_state_def link_files_def)
  then show "link_journal demo_env (PurePath True [''w'']) ''demo'' demo_note conflict_state
     = (Ok (), conflict_state\<lparr>out := [JournalNotSymlink ''demo'']\<rparr>)"
    using journal_link_report[OF c, of demo_note] by (simp add: conflict_state_def)
qed

text \<open>
  Claim C2 as stated fails: a journal link whose target does not exist is reported as
  already linked.
\<close>

theorem journal_link_report_counterexample:
  "link_journal demo_env (PurePath True [''w'']) ''demo'' demo_note dangling_state
     = (Ok (), dangling_state\<lparr>out := [AlreadyLinked ''demo'']\<rparr>)
   \<and> \<not> exists demo_env (child (child (PurePath True [''w'']) ''demo'') ''journal.md'') dangling_state"
  by (simp add: link_journal_def Let_def print_def fs_defs demo_defs dangling_state_def link_files_def)



lemma print_source_entries_all:
  "\<forall>r \<in> set entries. re_path r \<noteq> None \<and> re_source r \<noteq> None \<Longrightarrow>
   print_source_entries entries s =
     (Ok (), s\<lparr>out := out s @ map (\<lambda>r. SourceEntry (the (re_path r)) (the (re_source r))) entries\<rparr>)"
proof (induction entries arbitrary: s)
  case Nil
  show ?case by (simp add: ret_def)
next
  case (Cons r entries)
  then show ?case by (auto simp: thn_print)
qed

text \<open>
  Claim C7. When the copying of \<^verbatim>\<open>export\<close> has gone through and the manifest, read again,
  has entries with a source, each of them with a path, the command prints the note with
  their number, then one line with the path and the source of each, then the closing lines,
  and returns normally. The files are those the copying has left.
\<close>

theorem export_reports_sources:
  assumes "expanduser E (Path (ea_destination args)) = Inr expanded"
    and "resolve E expanded s = Inr export_path"
    and "export_copy sh E args export_path s = (Ok (), s1)"
    and "read_text E (child (Path (ea_workspace args)) ''workspace.toml'') s1 = (Ok text, s1)"
    and "toml text = Some config"
    and "source_entries = filter (\<lambda>r. re_source r \<noteq> None \<and> re_source r \<noteq> Some [])
                                 (case cfg_repos config of None \<Rightarrow> [] | Some rs \<Rightarrow> rs)"
    and "source_entries \<noteq> []"
    and "\<forall>r \<in> set source_entries. re_path r \<noteq> None"
  shows "cmd_export toml sh E args s =
     (Ok (), s1\<lparr>out := out s1
        @ [SourceNote (length source_entries), SourceHint]
        @ map (\<lambda>r. SourceEntry (the (re_path r)) (the (re_source r))) source_entries
        @ [ExportComplete, ToSetUp export_path (ea_workspace args)]\<rparr>)"
proof -
  have all: "\<forall>r \<in> set source_entries. re_path r \<noteq> None \<and> re_source r \<noteq> None"
    using assms(6,8) by auto
  have load: "load_toml toml E (child (Path (ea_workspace args)) ''workspace.toml'') s1 = (Ok config, s1)"
    using assms(4,5) by (simp add: load_toml_def bnd_def ret_def)
  have "export_report toml E args export_path s1 =
          thn (if source_entries \<noteq> []
                 then thn (print (SourceNote (length source_entries)))
                     (thn (print SourceHint) (print_source_entries source_entries))
               else ret ())
         (thn (print ExportComplete)
              (print (ToSetUp export_path (ea_workspace args)))) s1"
    unfolding export_report_def
    by (simp only: bnd_Ok[where m = "load_toml toml E (child (Path (ea_workspace args)) ''workspace.toml'')",
          OF load] Let_def assms(6)[symmetric])
  also have "\<dots> = (Ok (), s1\<lparr>out := out s1
        @ [SourceNote (length source_entries), SourceHint]
        @ map (\<lambda>r. SourceEntry (the (re_path r)) (the (re_source r))) source_entries
        @ [ExportComplete, ToSetUp export_path (ea_workspace args)]\<rparr>)"
    using assms(7) by (simp add: thn_def bnd_def print_def print_source_entries_all[OF all])
  finally have "export_report toml E args export_path s1 =
     (Ok (), s1\<lparr>out := out s1
        @ [SourceNote (length source_entries), SourceHint]
        @ map (\<lambda>r. SourceEntry (the (re_path r)) (the (re_source r))) source_entries
        @ [ExportComplete, ToSetUp export_path (ea_workspace args)]\<rparr>)" .
  then show ?thesis
    using assms(1,2,3) by (simp add: cmd_export_def Let_def thn_def bnd_def)
qed

theorem export_reports_sources_witness:
  "cmd_export source_toml plain_shutil demo_env demo_export_args export_state
     = (Ok (), copied_state\<lparr>out := out copied_state
          @ [SourceNote 1, SourceHint, SourceEntry ''repos/real'' ''data'', ExportComplete,
             ToSetUp (PurePath True [''out'']) ''proj'']\<rparr>)"
proof -
  have 1: "expanduser demo_env (Path (ea_destination demo_export_args)) = Inr (PurePath True [''out''])"
    by (simp add: expanduser_def demo_export_args_def Path_def)
  have r: "resolve demo_env (PurePath True [''out'']) export_state = Inr (PurePath True [''out''])"
    by (simp add: fs_defs export_state_def exported_files_def)
  have 2: "export_copy plain_shutil demo_env demo_export_args (PurePath True [''out'']) export_state
             = (Ok (), copied_state)"
    by (simp add: export_copy_def Let_def monad_defs lift_fs_def plain_shutil_def plain_copy2_def
        plain_copytree_def plain_rmtree_def plain_chmod_def mkdir_def create_at_def iterdir_def
        fs_defs demo_defs demo_export_args_def export_state_def exported_files_def copied_state_def
        update_conv')
  have 3: "read_text demo_env (child (Path (ea_workspace demo_export_args)) ''workspace.toml'') copied_state
            = (Ok ''# one source'', copied_state)"
    by (simp add: read_text_def fs_defs demo_defs demo_export_args_def copied_state_def exported_files_def)
  have 4: "source_toml ''# one source''
            = Some \<lparr>cfg_name = Some ''proj'', cfg_description = None, cfg_repos = Some [real_entry]\<rparr>"
    by (simp add: source_toml_def)
  have 5: "[real_entry] = filter (\<lambda>r. re_source r \<noteq> None \<and> re_source r \<noteq> Some [])
             (case cfg_repos \<lparr>cfg_name = Some ''proj'', cfg_description = None, cfg_repos = Some [real_entry]\<rparr>
              of None \<Rightarrow> [] | Some rs \<Rightarrow> rs)"
    by (simp add: real_entry_def)
  have 6: "[real_entry] \<noteq> []" by simp
  have 7: "\<forall>r \<in> set [real_entry]. re_path r \<noteq> None"
    by (simp add: real_entry_def)
  show ?thesis
    using export_reports_sources[where toml = source_toml, OF 1 r 2 3 4 5 6 7]
    by (simp add: real_entry_def demo_export_args_def)
qed

section \<open>Setup on a workspace that is already set up\<close>


lemma walk_nofollow:
  "walk h F True cur p = Inr loc \<Longrightarrow> node_at F loc \<noteq> None
   \<Longrightarrow> \<exists>loc'. walk h F False cur p = Inr loc' \<and> node_at F loc' \<noteq> None"
proof (induction h F "True" cur p rule: walk.induct)
  case (1 hops F cur)
  then show ?case by simp
next
  case (2 hops F cur c cs)
  show ?case
  proof (cases "c = ''..''")
    case True
    then show ?thesis using 2 by simp
  next
    case False
    show ?thesis
    proof (cases "map_of F (cur @ [c])")
      case None
      then show ?thesis using "2.prems" False by (auto simp: node_at_def split: if_splits)
    next
      case (Some n)
      show ?thesis
      proof (cases n)
        case (File x)
        then show ?thesis using "2.prems" False Some by (auto simp: node_at_def split: if_splits)
      next
        case Dir
        then show ?thesis using "2.hyps"(2)[OF False Some Dir] "2.prems" False Some by simp
      next
        case (Symlink t)
        show ?thesis
        proof (cases "cs = []")
          case True
          then show ?thesis using False Some Symlink by (simp add: node_at_def)
        next
          case ne: False
          show ?thesis
          proof (cases "hops = 0")
            case True
            then show ?thesis using "2.prems"(1) False Some Symlink by auto
          next
            case h: False
            have "walk (hops - 1) F True (if is_abs t then [] else cur) (parts t @ cs) = Inr loc"
              using "2.prems"(1) False Some Symlink h by auto
            then obtain loc' where "walk (hops - 1) F False (if is_abs t then [] else cur) (parts t @ cs) = Inr loc'"
                "node_at F loc' \<noteq> None"
              using "2.hyps"(3)[OF False Some Symlink _ h] "2.prems"(2) by auto
            then show ?thesis using False Some Symlink h ne by auto
          qed
        qed
      qed
    qed
  qed
qed

lemma mkdir_existing:
  assumes "is_dir E p s"
  shows "mkdir E p True s = (Ok (), s)"
proof -
  from assms obtain loc where "locate (files s) True (anchor E p) = Inr loc" "node_at (files s) loc \<noteq> None"
    by (auto simp: is_dir_def is_dir_fs_def stat_at_def split: sum.splits option.splits)
  then obtain loc' where "locate (files s) False (anchor E p) = Inr loc'" "node_at (files s) loc' \<noteq> None"
    using walk_nofollow[of max_hops "files s" "[]" "anchor E p" loc] by (auto simp: locate_def)
  then have "create_at E p Dir s = (Raise FileExistsError, s)"
    by (auto simp: create_at_def)
  then show ?thesis
    using assms by (simp add: mkdir_def)
qed

lemma claude_symlinks_ready:
  assumes "claude_ready E workspace_path s"
  shows "setup_claude_symlinks E workspace_path s =
           (Ok (), s\<lparr>out := out s @ (if exists E (Path ''.claude'') s then [] else [WarnNoParentClaude])\<rparr>)"
proof (cases "exists E (Path ''.claude'') s")
  case False
  then show ?thesis by (simp add: setup_claude_symlinks_def Let_def print_def)
next
  case True
  then have r: "is_dir E (child workspace_path ''.claude'') s"
      "is_dir E (child (child workspace_path ''.claude'') ''agents'') s"
      "is_dir E (child (child workspace_path ''.claude'') ''skills'') s"
      "\<not> (\<not> exists E (child (child (child workspace_path ''.claude'') ''agents'') ''core'') s
          \<and> exists E (child (Path ''.claude'') ''agents'') s)"
      "\<not> (\<not> exists E (child (child (child workspace_path ''.claude'') ''skills'') ''core'') s
          \<and> exists E (child (Path ''.claude'') ''skills'') s)"
      "exists E (child (child workspace_path ''.claude'') ''settings.local.json'') s"
    using assms True by (auto simp: claude_ready_def Let_def)
  show ?thesis
    using True r(4,5,6)
    by (cases "exists E (child (child (child workspace_path ''.claude'') ''agents'') ''core'') s";
        cases "exists E (child (child (child workspace_path ''.claude'') ''skills'') ''core'') s")
       (simp_all add: setup_claude_symlinks_def Let_def thn_def bnd_def ret_def
        mkdir_existing[OF r(1)] mkdir_existing[OF r(2)] mkdir_existing[OF r(3)])
qed

lemma skip_existing_entries:
  "\<forall>r \<in> set repos. \<exists>p. re_path r = Some p
      \<and> (exists E (joinpath workspace_path (Path p)) s \<or> is_symlink E (joinpath workspace_path (Path p)) s)
   \<Longrightarrow> for_each (setup_repo run E workspace_path) repos s =
       (Ok (), s\<lparr>out := out s @ map (\<lambda>r. AlreadyExists (Path (the (re_path r)))) repos\<rparr>)"
proof (induction repos arbitrary: s)
  case Nil
  show ?case by (simp add: ret_def)
next
  case (Cons r repos)
  from Cons.prems obtain p where p: "re_path r = Some p"
      "exists E (joinpath workspace_path (Path p)) s \<or> is_symlink E (joinpath workspace_path (Path p)) s"
    by auto
  have 1: "setup_repo run E workspace_path r s = (Ok (), s\<lparr>out := out s @ [AlreadyExists (Path p)]\<rparr>)"
    using p by (simp add: setup_repo_def Let_def print_def)
  have "\<forall>r \<in> set repos. \<exists>q. re_path r = Some q
      \<and> (exists E (joinpath workspace_path (Path q)) (s\<lparr>out := out s @ [AlreadyExists (Path p)]\<rparr>)
          \<or> is_symlink E (joinpath workspace_path (Path q)) (s\<lparr>out := out s @ [AlreadyExists (Path p)]\<rparr>))"
    using Cons.prems by (simp add: exists_def is_symlink_def)
  then have 2: "for_each (setup_repo run E workspace_path) repos (s\<lparr>out := out s @ [AlreadyExists (Path p)]\<rparr>) =
       (Ok (), s\<lparr>out := out s @ [AlreadyExists (Path p)] @ map (\<lambda>r. AlreadyExists (Path (the (re_path r)))) repos\<rparr>)"
    using Cons.IH[of "s\<lparr>out := out s @ [AlreadyExists (Path p)]\<rparr>"] by simp
  show ?case
    using 1 2 p(1) by (simp add: thn_def bnd_def)
qed


lemmas setup_demo_defs = demo_toml_def alias_entry_def real_entry_def setup_state_def setup_files_def
  once_state_def once_files_def once_out_def twice_state_def two_config_def

section \<open>Setup run again\<close>

text \<open>Every statement of \<^verbatim>\<open>setup\<close> only adds to the files.\<close>

lemma extends_refl: "extends F F"
  by (simp add: extends_def)

lemma extends_trans: "extends F G \<Longrightarrow> extends G H \<Longrightarrow> extends F H"
  by (simp add: extends_def)

lemma extends_update: "map_of F k = None \<Longrightarrow> extends F (AList.update k n F)"
  by (auto simp: extends_def update_conv')

lemma additiveD: "additive m \<Longrightarrow> m s = (r, s') \<Longrightarrow> extends (files s) (files s')"
  by (simp add: additive_def)

lemma additive_ret: "additive (ret a)"
  by (simp add: additive_def ret_def extends_refl)

lemma additive_print: "additive (print m)"
  by (auto simp: additive_def print_def extends_refl)

lemma additive_sys_exit: "additive (sys_exit n)"
  by (simp add: additive_def sys_exit_def extends_refl)

lemma additive_raise: "additive (raise e)"
  by (simp add: additive_def raise_def extends_refl)

lemma additive_bnd:
  assumes "additive m" and "\<And>a. additive (f a)"
  shows "additive (bnd m f)"
  unfolding additive_def
proof (intro allI impI)
  fix s r s'
  assume b: "bnd m f s = (r, s')"
  obtain r1 s1 where m: "m s = (r1, s1)" by (cases "m s")
  then have e1: "extends (files s) (files s1)" using assms(1) by (rule additiveD[rotated])
  show "extends (files s) (files s')"
  proof (cases r1)
    case (Ok a)
    then have "f a s1 = (r, s')" using b m by (simp add: bnd_def)
    then have "extends (files s1) (files s')" using assms(2) by (rule additiveD[rotated])
    with e1 show ?thesis by (rule extends_trans)
  next
    case (Exit n)
    then show ?thesis using b m e1 by (simp add: bnd_def)
  next
    case (Raise e)
    then show ?thesis using b m e1 by (simp add: bnd_def)
  qed
qed

lemma additive_thn: "additive m \<Longrightarrow> additive k \<Longrightarrow> additive (thn m k)"
  by (simp add: thn_def additive_bnd)

lemma additive_cond: "additive m \<Longrightarrow> additive k \<Longrightarrow> additive (\<lambda>s. if c s then m s else k s)"
  by (simp add: additive_def)

lemma additive_for_each: "(\<And>x. additive (body x)) \<Longrightarrow> additive (for_each body xs)"
  by (induction xs) (simp_all add: additive_ret additive_thn)

lemma additive_create_at: "additive (create_at E p n)"
  by (auto simp: additive_def create_at_def extends_refl extends_update node_at_def
      split: sum.splits option.splits if_splits)

lemma additive_mkdir: "additive (mkdir E p ok)"
proof -
  have "extends (files s) (files s')" if "mkdir E p ok s = (r, s')" for s :: "('a, 'b) state" and r s'
  proof -
    obtain r1 s1 where c: "create_at E p Dir s = (r1, s1)" by (cases "create_at E p Dir s")
    then have e: "extends (files s) (files s1)" using additive_create_at by (rule additiveD[rotated])
    have "s' = s1" using that c by (cases r1) (auto simp: mkdir_def split: if_splits)
    with e show ?thesis by simp
  qed
  then show ?thesis unfolding additive_def by blast
qed

lemma additive_symlink_to: "additive (symlink_to E p t)"
  by (simp add: symlink_to_def[abs_def] additive_create_at)

text \<open>Writing where nothing exists adds a file.\<close>

lemma additive_write_new:
  "additive (\<lambda>s. if \<not> exists E p s then thn (write_text E p c) (print m) s else ret () s)"
proof -
  have w: "extends (files s) (files s')" if "\<not> exists E p s" "write_text E p c s = (r, s')"
    for s :: "('a, 'b) state" and r s'
    using that
    by (auto simp: write_text_def exists_def exists_fs_def stat_at_def extends_refl extends_update node_at_def
        split: sum.splits option.splits node.splits if_splits)
  show ?thesis
    unfolding additive_def
  proof (intro allI impI)
    fix s :: "('a, 'b) state" and r s'
    assume a: "(if \<not> exists E p s then thn (write_text E p c) (print m) s else ret () s) = (r, s')"
    show "extends (files s) (files s')"
    proof (cases "exists E p s")
      case True
      then show ?thesis using a by (simp add: ret_def extends_refl)
    next
      case False
      obtain r1 s1 where c: "write_text E p c s = (r1, s1)" by (cases "write_text E p c s")
      then have e: "extends (files s) (files s1)" using w False by blast
      have "files s' = files s1"
        using a False c by (cases r1) (auto simp: thn_def bnd_def print_def)
      with e show ?thesis by simp
    qed
  qed
qed

lemma additive_claude_symlinks: "additive (setup_claude_symlinks E workspace_path)"
proof -
  have "additive (\<lambda>s. setup_claude_symlinks E workspace_path s)"
    unfolding setup_claude_symlinks_def Let_def
    by (intro additive_cond additive_thn additive_print additive_mkdir additive_symlink_to
        additive_ret additive_write_new)
  then show ?thesis by simp
qed

lemma additive_subprocess:
  assumes "adds_only run"
  shows "subprocess_run run E argv dir s = (r, s') \<Longrightarrow> extends (files s) (files s')"
  using assms by (auto simp: subprocess_run_def adds_only_def split: prod.splits) (metis fst_conv snd_conv)

lemma additive_setup_repo:
  assumes "adds_only run"
  shows "additive (setup_repo run E workspace_path repo)"
  unfolding additive_def
proof (intro allI impI)
  fix s :: "(setup_msg, 'a) state" and r s'
  assume a: "setup_repo run E workspace_path repo s = (r, s')"
  show "extends (files s) (files s')"
  proof (cases "re_path repo")
    case None
    then show ?thesis using a by (simp add: setup_repo_def raise_def extends_refl)
  next
    case (Some p)
    let ?target = "joinpath workspace_path (Path p)"
    show ?thesis
    proof (cases "exists E ?target s \<or> is_symlink E ?target s")
      case True
      then show ?thesis using a Some by (auto simp: setup_repo_def Let_def print_def extends_refl)
    next
      case absent: False
      show ?thesis
      proof (cases "re_source repo \<noteq> None \<and> re_source repo \<noteq> Some []")
        case True
        then obtain src where src: "re_source repo = Some src" "src \<noteq> []" by auto
        show ?thesis
        proof (cases "expanduser E (Path src)")
          case (Inl e)
          then show ?thesis using a Some absent src by (simp add: setup_repo_def Let_def raise_def extends_refl)
        next
          case (Inr expanded)
          show ?thesis
          proof (cases "resolve E expanded s")
            case (Inl e)
            then show ?thesis using a Some absent src Inr
              by (simp add: setup_repo_def Let_def raise_def extends_refl)
          next
            case res: (Inr source_path)
            show ?thesis
            proof (cases "exists E source_path s")
              case False
              then show ?thesis using a Some absent src Inr res
                by (auto simp: setup_repo_def Let_def print_def extends_refl)
            next
              case True
              then have eq: "thn (symlink_to E ?target source_path) (print (Linked (Path p) src)) s = (r, s')"
                using a Some absent src Inr res by (simp add: setup_repo_def Let_def)
              have "additive (thn (symlink_to E ?target source_path) (print (Linked (Path p) src)))"
                by (intro additive_thn additive_symlink_to additive_print)
              from this eq show ?thesis by (rule additiveD)
            qed
          qed
        qed
      next
        case nosrc: False
        show ?thesis
        proof (cases "re_remote repo \<noteq> None \<and> re_remote repo \<noteq> Some []")
          case False
          then show ?thesis using a Some absent nosrc
            by (auto simp: setup_repo_def Let_def print_def extends_refl)
        next
          case True
          then obtain remote where remote: "re_remote repo = Some remote" "remote \<noteq> []" by auto
          obtain pr s1 where run: "subprocess_run run E [''git'', ''clone'', remote, path_str ?target] None s = (pr, s1)"
            by (cases "subprocess_run run E [''git'', ''clone'', remote, path_str ?target] None s")
          then have e: "extends (files s) (files s1)"
            using additive_subprocess[OF assms] by blast
          have "files s' = files s1"
            using a Some absent nosrc remote run
            by (cases pr) (auto simp: setup_repo_def Let_def print_def raise_def split: if_splits)
          with e show ?thesis by simp
        qed
      qed
    qed
  qed
qed

lemma additive_load_toml: "additive (load_toml toml E p)"
proof -
  have "additive (read_text E p)"
    by (auto simp: additive_def read_text_def extends_refl split: sum.splits node.splits)
  moreover have "additive (case toml content of None \<Rightarrow> raise TOMLDecodeError | Some config \<Rightarrow> ret config)" for content
    by (cases "toml content") (simp_all add: additive_raise additive_ret)
  ultimately show ?thesis
    unfolding load_toml_def by (intro additive_bnd)
qed

lemma additive_cmd_setup:
  assumes "adds_only run"
  shows "additive (cmd_setup toml run E args)"
proof -
  have body: "additive (case cfg_repos config of
           None \<Rightarrow> thn (print ErrNoReposSection) (sys_exit 1)
         | Some repos \<Rightarrow>
            (thn (mkdir E (child (Path (sa_workspace args)) ''repos'') True)
            (thn (\<lambda>s. if \<not> exists E (child (Path (sa_workspace args)) ''plans'') s
                      then thn (mkdir E (child (Path (sa_workspace args)) ''plans'') False) (print CreatedPlans) s
                      else ret () s)
            (thn (\<lambda>s. if \<not> exists E (child (Path (sa_workspace args)) ''CLAUDE.md'') s
                      then thn (write_text E (child (Path (sa_workspace args)) ''CLAUDE.md'')
                                  (claude_md_content config (sa_workspace args)))
                               (print CreatedClaudeMd) s
                      else ret () s)
            (thn (print SettingUpSymlinks)
            (thn (setup_claude_symlinks E (Path (sa_workspace args)))
            (thn (print SettingUpRepos)
            (thn (for_each (setup_repo run E (Path (sa_workspace args))) repos)
                 (print (WorkspaceReady (sa_workspace args)))))))))))" for config
    by (cases "cfg_repos config")
       (auto intro!: additive_thn additive_print additive_sys_exit additive_mkdir additive_cond
          additive_ret additive_write_new additive_claude_symlinks additive_for_each
          additive_setup_repo[OF assms])
  have "additive (\<lambda>s. cmd_setup toml run E args s)"
    unfolding cmd_setup_def Let_def
    by (intro additive_cond additive_thn additive_print additive_sys_exit additive_bnd
        additive_load_toml body)
  then show ?thesis by simp
qed

text \<open>A path that is no link is found at the same place whether or not links are followed
  at the end.\<close>

lemma walk_follow_same:
  "walk h F False cur p = Inr loc \<Longrightarrow> (\<forall>t. node_at F loc \<noteq> Some (Symlink t))
   \<Longrightarrow> walk h F True cur p = Inr loc"
proof (induction h F "False" cur p rule: walk.induct)
  case (1 hops F cur)
  then show ?case by simp
next
  case (2 hops F cur c cs)
  show ?case
  proof (cases "c = ''..''")
    case True
    then show ?thesis using 2 by simp
  next
    case False
    show ?thesis
    proof (cases "map_of F (cur @ [c])")
      case None
      then show ?thesis using "2.prems" False by (auto split: if_splits)
    next
      case (Some n)
      show ?thesis
      proof (cases n)
        case (File x)
        then show ?thesis using "2.prems" False Some by (auto split: if_splits)
      next
        case Dir
        then show ?thesis using "2.hyps"(2)[OF False Some Dir] "2.prems" False Some by simp
      next
        case (Symlink t)
        show ?thesis
        proof (cases "cs = []")
          case True
          then have "loc = cur @ [c]" using "2.prems"(1) False Some Symlink by simp
          then have "node_at F loc = Some (Symlink t)" using Some Symlink by (simp add: node_at_def)
          then show ?thesis using "2.prems"(2) by simp
        next
          case ne: False
          show ?thesis
          proof (cases "hops = 0")
            case True
            then show ?thesis using "2.prems"(1) False Some Symlink ne by auto
          next
            case h: False
            have "walk (hops - 1) F False (if is_abs t then [] else cur) (parts t @ cs) = Inr loc"
              using "2.prems"(1) False Some Symlink h ne by auto
            then have "walk (hops - 1) F True (if is_abs t then [] else cur) (parts t @ cs) = Inr loc"
              using "2.hyps"(3)[OF False Some Symlink _ h] "2.prems"(2) ne by auto
            then show ?thesis using False Some Symlink h ne by auto
          qed
        qed
      qed
    qed
  qed
qed

lemma absent_target:
  assumes "\<not> exists E p s" and "\<not> is_symlink E p s"
    and "locate (files s) False (anchor E p) = Inr loc"
  shows "node_at (files s) loc = None"
proof (rule ccontr)
  assume "node_at (files s) loc \<noteq> None"
  then obtain n where n: "node_at (files s) loc = Some n" by auto
  have ns: "\<forall>t. n \<noteq> Symlink t"
    using assms(2,3) n by (auto simp: is_symlink_def is_symlink_fs_def stat_at_def)
  then have "locate (files s) True (anchor E p) = Inr loc"
    using walk_follow_same[of max_hops "files s" "[]" "anchor E p" loc] assms(3) n
    by (simp add: locate_def)
  then have "exists E p s"
    using n by (simp add: exists_def exists_fs_def stat_at_def)
  with assms(1) show False by simp
qed

lemma setup_repo_relink:
  assumes "re_path repo = Some p" and "re_source repo = Some src" and "src \<noteq> []"
    and "\<not> exists E (joinpath workspace_path (Path p)) s"
    and "\<not> is_symlink E (joinpath workspace_path (Path p)) s"
    and "expanduser E (Path src) = Inr expanded"
    and "resolve E expanded s = Inr source_path"
    and "exists E source_path s"
    and "locate (files s) False (anchor E (joinpath workspace_path (Path p))) = Inr loc"
  shows "setup_repo run E workspace_path repo s
           = (Ok (), s\<lparr>files := AList.update loc (Symlink source_path) (files s),
                       out := out s @ [Linked (Path p) src]\<rparr>)"
proof -
  have "node_at (files s) loc = None"
    using absent_target[OF assms(4,5,9)] .
  then show ?thesis
    using assms
    by (simp add: setup_repo_def Let_def symlink_to_def create_at_def thn_def bnd_def print_def)
qed

lemma setup_repo_reclone:
  assumes "re_path repo = Some p" and "re_source repo = None \<or> re_source repo = Some []"
    and "re_remote repo = Some remote" and "remote \<noteq> []"
    and "\<not> exists E (joinpath workspace_path (Path p)) s"
    and "\<not> is_symlink E (joinpath workspace_path (Path p)) s"
    and "subprocess_run run E [''git'', ''clone'', remote, path_str (joinpath workspace_path (Path p))] None s
           = (Completed rc sout serr, s')"
  shows "setup_repo run E workspace_path repo s
           = (Ok (), s'\<lparr>out := out s' @ [if rc = 0 then Cloned remote (Path p) else CloneFailed remote serr]\<rparr>)"
  using assms by (auto simp: setup_repo_def Let_def print_def)

lemma setup_two_first:
  "cmd_setup demo_toml run demo_env \<lparr>sa_workspace = ''proj''\<rparr> (setup_state ''# two'') = (Ok (), once_state)"
  by (simp add: cmd_setup_def setup_claude_symlinks_def setup_repo_def load_toml_def read_text_def
      expanduser_def mkdir_def symlink_to_def create_at_def write_text_def Let_def monad_defs
      fs_defs demo_defs setup_demo_defs update_conv')

lemma setup_two_second:
  "cmd_setup demo_toml run demo_env \<lparr>sa_workspace = ''proj''\<rparr> once_state = (Ok (), twice_state)"
  by (simp add: cmd_setup_def setup_claude_symlinks_def setup_repo_def load_toml_def read_text_def
      expanduser_def mkdir_def symlink_to_def create_at_def write_text_def Let_def monad_defs
      fs_defs demo_defs setup_demo_defs update_conv')

text \<open>
  Claim C1, as amended. A run of \<^verbatim>\<open>setup\<close> overwrites nothing, as long as
  \<^verbatim>\<open>git clone\<close> itself changes no entry of the file system that exists: from whatever
  state the run starts, after a complete run or after one that stopped half-way, and whether
  it ends normally, exits or raises, every file, directory and link that was there before
  is there unchanged afterwards; so \<^verbatim>\<open>repos\<close>, \<^verbatim>\<open>plans\<close>, \<^verbatim>\<open>CLAUDE.md\<close>, the links and the
  settings file below \<^verbatim>\<open>.claude\<close> and the targets of the entries are only ever created
  where nothing is. An entry whose target path exists, or is a symbolic link, when the loop
  reaches it is skipped with the notice that it already exists, the files stay as they
  are, and the loop goes on. An entry whose target is missing is processed again: when it
  has a source, and the source now resolves to something that exists, the link is created
  and reported; when it has only a remote, \<^verbatim>\<open>git clone\<close> is run again and its success or
  failure reported. Last, a run on a workspace where everything is in place (the \<^verbatim>\<open>repos\<close>
  directory, \<^verbatim>\<open>plans\<close>, \<^verbatim>\<open>CLAUDE.md\<close>, the \<^verbatim>\<open>.claude\<close> part, and the target path of every
  entry) changes no file: it prints the two headings, one notice for each entry and the
  closing line.
\<close>

theorem setup_rerun:
  "(adds_only run \<and> cmd_setup toml run E args sb = (res, sf) \<longrightarrow> extends (files sb) (files sf))
   \<and> (for_each (setup_repo run E workspace_path) pre s = (Ok (), sx)
      \<and> re_path repo = Some p
      \<and> (exists E (joinpath workspace_path (Path p)) sx \<or> is_symlink E (joinpath workspace_path (Path p)) sx)
     \<longrightarrow> for_each (setup_repo run E workspace_path) (pre @ repo # post) s
           = for_each (setup_repo run E workspace_path) post (sx\<lparr>out := out sx @ [AlreadyExists (Path p)]\<rparr>))
   \<and> (re_path rl = Some pl \<and> re_source rl = Some src \<and> src \<noteq> []
      \<and> \<not> exists E (joinpath workspace_path (Path pl)) sl
      \<and> \<not> is_symlink E (joinpath workspace_path (Path pl)) sl
      \<and> expanduser E (Path src) = Inr expanded
      \<and> resolve E expanded sl = Inr source_path
      \<and> exists E source_path sl
      \<and> locate (files sl) False (anchor E (joinpath workspace_path (Path pl))) = Inr loc
     \<longrightarrow> setup_repo run E workspace_path rl sl
           = (Ok (), sl\<lparr>files := AList.update loc (Symlink source_path) (files sl),
                        out := out sl @ [Linked (Path pl) src]\<rparr>))
   \<and> (re_path rg = Some pg \<and> (re_source rg = None \<or> re_source rg = Some [])
      \<and> re_remote rg = Some remote \<and> remote \<noteq> []
      \<and> \<not> exists E (joinpath workspace_path (Path pg)) sg
      \<and> \<not> is_symlink E (joinpath workspace_path (Path pg)) sg
      \<and> subprocess_run run E [''git'', ''clone'', remote, path_str (joinpath workspace_path (Path pg))] None sg
           = (Completed code sout serr, sh)
     \<longrightarrow> setup_repo run E workspace_path rg sg
           = (Ok (), sh\<lparr>out := out sh @ [if code = 0 then Cloned remote (Path pg) else CloneFailed remote serr]\<rparr>))
   \<and> (exists E (Path (sa_workspace args)) s'
      \<and> read_text E (child (Path (sa_workspace args)) ''workspace.toml'') s' = (Ok content, s')
      \<and> toml content = Some config \<and> cfg_repos config = Some repos
      \<and> is_dir E (child (Path (sa_workspace args)) ''repos'') s'
      \<and> exists E (child (Path (sa_workspace args)) ''plans'') s'
      \<and> exists E (child (Path (sa_workspace args)) ''CLAUDE.md'') s'
      \<and> claude_ready E (Path (sa_workspace args)) s'
      \<and> (\<forall>r \<in> set repos. \<exists>q. re_path r = Some q
            \<and> (exists E (joinpath (Path (sa_workspace args)) (Path q)) s'
                \<or> is_symlink E (joinpath (Path (sa_workspace args)) (Path q)) s'))
     \<longrightarrow> cmd_setup toml run E args s'
           = (Ok (), s'\<lparr>out := out s' @ [SettingUpSymlinks]
                 @ (if exists E (Path ''.claude'') s' then [] else [WarnNoParentClaude])
                 @ [SettingUpRepos]
                 @ map (\<lambda>r. AlreadyExists (Path (the (re_path r)))) repos
                 @ [WorkspaceReady (sa_workspace args)]\<rparr>))"
proof (intro conjI impI)
  assume "adds_only run \<and> cmd_setup toml run E args sb = (res, sf)"
  then show "extends (files sb) (files sf)"
    using additive_cmd_setup[of run toml E args] by (auto dest: additiveD)
next
  assume a: "for_each (setup_repo run E workspace_path) pre s = (Ok (), sx)
      \<and> re_path repo = Some p
      \<and> (exists E (joinpath workspace_path (Path p)) sx \<or> is_symlink E (joinpath workspace_path (Path p)) sx)"
  then have "setup_repo run E workspace_path repo sx = (Ok (), sx\<lparr>out := out sx @ [AlreadyExists (Path p)]\<rparr>)"
    by (simp add: setup_repo_def Let_def print_def)
  then show "for_each (setup_repo run E workspace_path) (pre @ repo # post) s
           = for_each (setup_repo run E workspace_path) post (sx\<lparr>out := out sx @ [AlreadyExists (Path p)]\<rparr>)"
    using a by (simp add: for_each_append thn_def bnd_def)
next
  assume a: "re_path rl = Some pl \<and> re_source rl = Some src \<and> src \<noteq> []
      \<and> \<not> exists E (joinpath workspace_path (Path pl)) sl
      \<and> \<not> is_symlink E (joinpath workspace_path (Path pl)) sl
      \<and> expanduser E (Path src) = Inr expanded
      \<and> resolve E expanded sl = Inr source_path
      \<and> exists E source_path sl
      \<and> locate (files sl) False (anchor E (joinpath workspace_path (Path pl))) = Inr loc"
  show "setup_repo run E workspace_path rl sl
           = (Ok (), sl\<lparr>files := AList.update loc (Symlink source_path) (files sl),
                        out := out sl @ [Linked (Path pl) src]\<rparr>)"
    using a setup_repo_relink[of rl pl src E workspace_path sl expanded source_path loc run] by blast
next
  assume "re_path rg = Some pg \<and> (re_source rg = None \<or> re_source rg = Some [])
      \<and> re_remote rg = Some remote \<and> remote \<noteq> []
      \<and> \<not> exists E (joinpath workspace_path (Path pg)) sg
      \<and> \<not> is_symlink E (joinpath workspace_path (Path pg)) sg
      \<and> subprocess_run run E [''git'', ''clone'', remote, path_str (joinpath workspace_path (Path pg))] None sg
           = (Completed code sout serr, sh)"
  then show "setup_repo run E workspace_path rg sg
           = (Ok (), sh\<lparr>out := out sh @ [if code = 0 then Cloned remote (Path pg) else CloneFailed remote serr]\<rparr>)"
    by (intro setup_repo_reclone) simp_all
next
  let ?W = "Path (sa_workspace args)"
  assume a: "exists E ?W s'
      \<and> read_text E (child ?W ''workspace.toml'') s' = (Ok content, s')
      \<and> toml content = Some config \<and> cfg_repos config = Some repos
      \<and> is_dir E (child ?W ''repos'') s'
      \<and> exists E (child ?W ''plans'') s'
      \<and> exists E (child ?W ''CLAUDE.md'') s'
      \<and> claude_ready E ?W s'
      \<and> (\<forall>r \<in> set repos. \<exists>q. re_path r = Some q
            \<and> (exists E (joinpath ?W (Path q)) s' \<or> is_symlink E (joinpath ?W (Path q)) s'))"
  define sa where "sa = s'\<lparr>out := out s' @ [SettingUpSymlinks]\<rparr>"
  define sc where "sc = s'\<lparr>out := out s' @ [SettingUpSymlinks]
                 @ (if exists E (Path ''.claude'') s' then [] else [WarnNoParentClaude]) @ [SettingUpRepos]\<rparr>"
  have m: "exists E (child ?W ''workspace.toml'') s'"
    using a read_text_exists by blast
  have load: "load_toml toml E (child ?W ''workspace.toml'') s' = (Ok config, s')"
    using a by (simp add: load_toml_def bnd_def ret_def)
  have mk: "mkdir E (child ?W ''repos'') True s' = (Ok (), s')"
    using a by (simp add: mkdir_existing)
  have "claude_ready E ?W sa"
    using a by (simp add: claude_ready_def sa_def exists_def is_dir_def)
  then have cl: "setup_claude_symlinks E ?W sa
      = (Ok (), sa\<lparr>out := out sa @ (if exists E (Path ''.claude'') s' then [] else [WarnNoParentClaude])\<rparr>)"
    using claude_symlinks_ready[of E ?W sa] by (simp add: sa_def exists_def)
  have "\<forall>r \<in> set repos. \<exists>q. re_path r = Some q
            \<and> (exists E (joinpath ?W (Path q)) sc \<or> is_symlink E (joinpath ?W (Path q)) sc)"
    using a by (simp add: sc_def exists_def is_symlink_def)
  then have lp: "for_each (setup_repo run E ?W) repos sc
       = (Ok (), sc\<lparr>out := out sc @ map (\<lambda>r. AlreadyExists (Path (the (re_path r)))) repos\<rparr>)"
    by (rule skip_existing_entries)
  have tail: "thn (print SettingUpSymlinks)
            (thn (setup_claude_symlinks E ?W)
            (thn (print SettingUpRepos)
            (thn (for_each (setup_repo run E ?W) repos)
                 (print (WorkspaceReady (sa_workspace args)))))) s'
        = (Ok (), s'\<lparr>out := out s' @ [SettingUpSymlinks]
                 @ (if exists E (Path ''.claude'') s' then [] else [WarnNoParentClaude])
                 @ [SettingUpRepos]
                 @ map (\<lambda>r. AlreadyExists (Path (the (re_path r)))) repos
                 @ [WorkspaceReady (sa_workspace args)]\<rparr>)"
    using cl lp by (simp add: thn_def bnd_def print_def sa_def sc_def)
  have "cmd_setup toml run E args s' =
          thn (print SettingUpSymlinks)
            (thn (setup_claude_symlinks E ?W)
            (thn (print SettingUpRepos)
            (thn (for_each (setup_repo run E ?W) repos)
                 (print (WorkspaceReady (sa_workspace args)))))) s'"
    using a m load mk
    by (simp add: cmd_setup_def Let_def bnd_def thn_def ret_def)
  also note tail
  finally show "cmd_setup toml run E args s'
           = (Ok (), s'\<lparr>out := out s' @ [SettingUpSymlinks]
                 @ (if exists E (Path ''.claude'') s' then [] else [WarnNoParentClaude])
                 @ [SettingUpRepos]
                 @ map (\<lambda>r. AlreadyExists (Path (the (re_path r)))) repos
                 @ [WorkspaceReady (sa_workspace args)]\<rparr>)" .
qed

theorem setup_rerun_witness:
  "extends (files (setup_state ''# two'')) (files once_state)
   \<and> for_each (setup_repo failing_clone demo_env (Path ''proj'')) [real_entry] once_state
     = (Ok (), once_state\<lparr>out := out once_state @ [AlreadyExists (Path ''repos/real'')]\<rparr>)
   \<and> setup_repo failing_clone demo_env (Path ''proj'') alias_entry once_state
     = (Ok (), once_state\<lparr>files := once_files @ [([''w'', ''proj'', ''repos'', ''alias''],
                                                      Symlink (PurePath True [''w'', ''data'']))],
                           out := once_out @ [Linked (Path ''repos/alias'') ''proj/repos/real'']\<rparr>)
   \<and> setup_repo failing_clone demo_env (Path ''proj'') remote_entry once_state
     = (Ok (), once_state\<lparr>out := once_out @ [CloneFailed ''https://example.org/far.git''
                                                             ''fatal: repository not found'']\<rparr>)
   \<and> cmd_setup demo_toml failing_clone demo_env \<lparr>sa_workspace = ''proj''\<rparr> ready_state
     = (Ok (), ready_state\<lparr>out := [SettingUpSymlinks, SettingUpRepos,
                                     AlreadyExists (Path ''repos/alias''),
                                     AlreadyExists (Path ''repos/real''), WorkspaceReady ''proj'']\<rparr>)"
proof -
  note inst = setup_rerun[where run = failing_clone and E = demo_env and toml = demo_toml
      and args = "\<lparr>sa_workspace = ''proj''\<rparr>" and workspace_path = "Path ''proj''"
      and sb = "setup_state ''# two''" and res = "Ok ()" and sf = once_state
      and pre = "[]" and s = once_state and sx = once_state and repo = real_entry
      and p = "''repos/real''" and post = "[]"
      and rl = alias_entry and pl = "''repos/alias''" and src = "''proj/repos/real''"
      and expanded = "Path ''proj/repos/real''" and source_path = "PurePath True [''w'', ''data'']"
      and sl = once_state and loc = "[''w'', ''proj'', ''repos'', ''alias'']"
      and rg = remote_entry and pg = "''repos/far''" and remote = "''https://example.org/far.git''"
      and sg = once_state and sh = once_state and code = 128 and sout = "[]"
      and serr = "''fatal: repository not found''"
      and s' = ready_state and content = "''# two''"
      and config = two_config and repos = "[alias_entry, real_entry]"]
  have 0: "adds_only failing_clone
      \<and> cmd_setup demo_toml failing_clone demo_env \<lparr>sa_workspace = ''proj''\<rparr> (setup_state ''# two'')
          = (Ok (), once_state)"
    by (simp add: setup_two_first adds_only_def failing_clone_def extends_def)
  have 1: "for_each (setup_repo failing_clone demo_env (Path ''proj'')) [] once_state = (Ok (), once_state)
      \<and> re_path real_entry = Some ''repos/real''
      \<and> (exists demo_env (joinpath (Path ''proj'') (Path ''repos/real'')) once_state
          \<or> is_symlink demo_env (joinpath (Path ''proj'') (Path ''repos/real'')) once_state)"
    by (simp add: ret_def fs_defs demo_defs setup_demo_defs)
  have 2: "re_path alias_entry = Some ''repos/alias'' \<and> re_source alias_entry = Some ''proj/repos/real''
      \<and> ''proj/repos/real'' \<noteq> []
      \<and> \<not> exists demo_env (joinpath (Path ''proj'') (Path ''repos/alias'')) once_state
      \<and> \<not> is_symlink demo_env (joinpath (Path ''proj'') (Path ''repos/alias'')) once_state
      \<and> expanduser demo_env (Path ''proj/repos/real'') = Inr (Path ''proj/repos/real'')
      \<and> resolve demo_env (Path ''proj/repos/real'') once_state = Inr (PurePath True [''w'', ''data''])
      \<and> exists demo_env (PurePath True [''w'', ''data'']) once_state
      \<and> locate (files once_state) False (anchor demo_env (joinpath (Path ''proj'') (Path ''repos/alias'')))
          = Inr [''w'', ''proj'', ''repos'', ''alias'']"
    by (simp add: expanduser_def fs_defs demo_defs setup_demo_defs)
  have 3: "re_path remote_entry = Some ''repos/far''
      \<and> (re_source remote_entry = None \<or> re_source remote_entry = Some [])
      \<and> re_remote remote_entry = Some ''https://example.org/far.git'' \<and> ''https://example.org/far.git'' \<noteq> []
      \<and> \<not> exists demo_env (joinpath (Path ''proj'') (Path ''repos/far'')) once_state
      \<and> \<not> is_symlink demo_env (joinpath (Path ''proj'') (Path ''repos/far'')) once_state
      \<and> subprocess_run failing_clone demo_env
            [''git'', ''clone'', ''https://example.org/far.git'', path_str (joinpath (Path ''proj'') (Path ''repos/far''))]
            None once_state
          = (Completed 128 [] ''fatal: repository not found'', once_state)"
    by (simp add: remote_entry_def subprocess_run_def failing_clone_def fs_defs demo_defs setup_demo_defs)
  have 4: "exists demo_env (Path (sa_workspace \<lparr>sa_workspace = ''proj''\<rparr>)) ready_state
      \<and> read_text demo_env (child (Path (sa_workspace \<lparr>sa_workspace = ''proj''\<rparr>)) ''workspace.toml'') ready_state
          = (Ok ''# two'', ready_state)
      \<and> demo_toml ''# two'' = Some two_config \<and> cfg_repos two_config = Some [alias_entry, real_entry]
      \<and> is_dir demo_env (child (Path (sa_workspace \<lparr>sa_workspace = ''proj''\<rparr>)) ''repos'') ready_state
      \<and> exists demo_env (child (Path (sa_workspace \<lparr>sa_workspace = ''proj''\<rparr>)) ''plans'') ready_state
      \<and> exists demo_env (child (Path (sa_workspace \<lparr>sa_workspace = ''proj''\<rparr>)) ''CLAUDE.md'') ready_state
      \<and> claude_ready demo_env (Path (sa_workspace \<lparr>sa_workspace = ''proj''\<rparr>)) ready_state
      \<and> (\<forall>r \<in> set [alias_entry, real_entry]. \<exists>q. re_path r = Some q
            \<and> (exists demo_env (joinpath (Path (sa_workspace \<lparr>sa_workspace = ''proj''\<rparr>)) (Path q)) ready_state
                \<or> is_symlink demo_env (joinpath (Path (sa_workspace \<lparr>sa_workspace = ''proj''\<rparr>)) (Path q)) ready_state))"
    by (simp add: read_text_def claude_ready_def Let_def fs_defs demo_defs setup_demo_defs
        ready_state_def ready_files_def)
  have 5: "exists demo_env (Path ''.claude'') ready_state"
    by (simp add: fs_defs demo_defs ready_state_def ready_files_def)
  from inst 0 1 2 3 4 have
    e: "extends (files (setup_state ''# two'')) (files once_state)"
    and a: "for_each (setup_repo failing_clone demo_env (Path ''proj'')) ([] @ real_entry # []) once_state
           = for_each (setup_repo failing_clone demo_env (Path ''proj'')) []
               (once_state\<lparr>out := out once_state @ [AlreadyExists (Path ''repos/real'')]\<rparr>)"
    and l: "setup_repo failing_clone demo_env (Path ''proj'') alias_entry once_state
           = (Ok (), once_state\<lparr>files := AList.update [''w'', ''proj'', ''repos'', ''alias'']
                                            (Symlink (PurePath True [''w'', ''data''])) (files once_state),
                        out := out once_state @ [Linked (Path ''repos/alias'') ''proj/repos/real'']\<rparr>)"
    and g: "setup_repo failing_clone demo_env (Path ''proj'') remote_entry once_state
           = (Ok (), once_state\<lparr>out := out once_state @
                [if (128::int) = 0 then Cloned ''https://example.org/far.git'' (Path ''repos/far'')
                 else CloneFailed ''https://example.org/far.git'' ''fatal: repository not found'']\<rparr>)"
    and b: "cmd_setup demo_toml failing_clone demo_env \<lparr>sa_workspace = ''proj''\<rparr> ready_state
           = (Ok (), ready_state\<lparr>out := out ready_state @ [SettingUpSymlinks]
                 @ (if exists demo_env (Path ''.claude'') ready_state then [] else [WarnNoParentClaude])
                 @ [SettingUpRepos]
                 @ map (\<lambda>r. AlreadyExists (Path (the (re_path r)))) [alias_entry, real_entry]
                 @ [WorkspaceReady (sa_workspace \<lparr>sa_workspace = ''proj''\<rparr>)]\<rparr>)"
    by blast+
  have u: "AList.update [''w'', ''proj'', ''repos'', ''alias''] (Symlink (PurePath True [''w'', ''data'']))
             (files once_state)
           = once_files @ [([''w'', ''proj'', ''repos'', ''alias''], Symlink (PurePath True [''w'', ''data'']))]"
    by (simp add: once_state_def once_files_def setup_files_def)
  have o: "out once_state = once_out"
    by (simp add: once_state_def)
  show ?thesis
  proof (intro conjI)
    show "extends (files (setup_state ''# two'')) (files once_state)" by (rule e)
    show "for_each (setup_repo failing_clone demo_env (Path ''proj'')) [real_entry] once_state
     = (Ok (), once_state\<lparr>out := out once_state @ [AlreadyExists (Path ''repos/real'')]\<rparr>)"
      using a by (simp add: ret_def)
    show "setup_repo failing_clone demo_env (Path ''proj'') alias_entry once_state
     = (Ok (), once_state\<lparr>files := once_files @ [([''w'', ''proj'', ''repos'', ''alias''],
                                                      Symlink (PurePath True [''w'', ''data'']))],
                           out := once_out @ [Linked (Path ''repos/alias'') ''proj/repos/real'']\<rparr>)"
      using l by (simp only: u o)
    show "setup_repo failing_clone demo_env (Path ''proj'') remote_entry once_state
     = (Ok (), once_state\<lparr>out := once_out @ [CloneFailed ''https://example.org/far.git''
                                                             ''fatal: repository not found'']\<rparr>)"
      using g by (simp add: o)
    show "cmd_setup demo_toml failing_clone demo_env \<lparr>sa_workspace = ''proj''\<rparr> ready_state
     = (Ok (), ready_state\<lparr>out := [SettingUpSymlinks, SettingUpRepos,
                                     AlreadyExists (Path ''repos/alias''),
                                     AlreadyExists (Path ''repos/real''), WorkspaceReady ''proj'']\<rparr>)"
      using b 5 by (simp add: alias_entry_def real_entry_def ready_state_def)
  qed
qed

text \<open>
  Claim C1 as stated fails: the second of two runs in succession can change the files. In
  the manifest of the example the first entry is a link to what the second entry creates;
  the first run skips it because its source is missing, and the second run creates it.
\<close>

theorem setup_twice_counterexample:
  "cmd_setup demo_toml silent_git demo_env \<lparr>sa_workspace = ''proj''\<rparr> (setup_state ''# two'')
     = (Ok (), once_state)
   \<and> cmd_setup demo_toml silent_git demo_env \<lparr>sa_workspace = ''proj''\<rparr> once_state
     = (Ok (), twice_state)
   \<and> map_of (files once_state) [''w'', ''proj'', ''repos'', ''alias''] = None
   \<and> map_of (files twice_state) [''w'', ''proj'', ''repos'', ''alias'']
     = Some (Symlink (PurePath True [''w'', ''data'']))"
  by (simp add: setup_two_first setup_two_second) (simp add: setup_demo_defs)

section \<open>A note linked once and again\<close>

lemma stat_at_mono:
  assumes "stat_at F fl p = Inr n"
    and "\<And>k m. map_of F k = Some m \<Longrightarrow> map_of F' k = Some m"
  shows "stat_at F' fl p = Inr n"
proof -
  from assms(1) obtain loc where loc: "locate F fl p = Inr loc" "node_at F loc = Some n"
    by (auto simp: stat_at_def split: sum.splits option.splits)
  have "locate F' fl p = Inr loc"
    using walk_mono[of max_hops F fl "[]" p loc F'] loc assms(2) by (simp add: locate_def)
  moreover have "node_at F' loc = Some n"
    using loc(2) assms(2) by (auto simp: node_at_def split: if_splits)
  ultimately show ?thesis by (simp add: stat_at_def)
qed





















end
